theory Spec2Isabelle
  imports Complex_Main "HOL-Library.AList" "HOL-Library.Sublist"
begin

section \<open>Message and response model (core/types.py)\<close>

text \<open>
  Python strings are modelled as \<open>string\<close>, Python's unbounded \<open>int\<close> as \<open>int\<close> and
  \<open>Optional[T]\<close> as \<open>T option\<close>. The truth value Python gives an optional string in
  \<open>if s:\<close> and \<open>s or d\<close> is \<open>truthy\<close>: \<open>None\<close> and the empty string are false.
\<close>

datatype Role = SYSTEM | USER | ASSISTANT

fun role_value :: "Role \<Rightarrow> string" where
  "role_value SYSTEM = ''system''"
| "role_value USER = ''user''"
| "role_value ASSISTANT = ''assistant''"

record Message =
  role :: Role
  content :: string

text \<open>A \<open>dict\<close> with string keys, in insertion order: an association list.\<close>

type_synonym dict = "(string \<times> string) list"

definition to_dict :: "Message \<Rightarrow> dict" where
  "to_dict msg = [(''role'', role_value (role msg)), (''content'', content msg)]"

fun truthy :: "string option \<Rightarrow> bool" where
  "truthy None = False"
| "truthy (Some s) = (s \<noteq> [])"

text \<open>\<open>s or d\<close> for an optional string \<open>s\<close> and a string \<open>d\<close>.\<close>

fun or_else :: "string option \<Rightarrow> string \<Rightarrow> string" where
  "or_else None d = d"
| "or_else (Some s) d = (if s \<noteq> [] then s else d)"

section \<open>Conversation memory (context/memory.py)\<close>

record Memory =
  messages :: "Message list"
  max_messages :: "int option"
  mem_system_prompt :: "string option"

definition Memory_init :: "int option \<Rightarrow> string option \<Rightarrow> Memory" where
  "Memory_init max_msgs sp =
     \<lparr>messages = [], max_messages = max_msgs, mem_system_prompt = sp\<rparr>"

text \<open>
  \<open>_enforce_limit\<close>: when a bound is set and the length exceeds it, the slice
  \<open>self._messages[excess:]\<close> with \<open>excess = len - max > 0\<close> drops the first
  \<open>excess\<close> messages (all of them when \<open>excess\<close> is at least the length).
\<close>

definition enforce_limit :: "Memory \<Rightarrow> Memory" where
  "enforce_limit m =
     (case max_messages m of
        None \<Rightarrow> m
      | Some k \<Rightarrow>
          if int (length (messages m)) > k
          then (let excess = int (length (messages m)) - k
                in m\<lparr>messages := drop (nat excess) (messages m)\<rparr>)
          else m)"

definition add_message :: "Memory \<Rightarrow> Message \<Rightarrow> Memory" where
  "add_message m msg = enforce_limit (m\<lparr>messages := messages m @ [msg]\<rparr>)"

definition add_user_message :: "Memory \<Rightarrow> string \<Rightarrow> Memory" where
  "add_user_message m c = add_message m \<lparr>role = USER, content = c\<rparr>"

definition add_assistant_message :: "Memory \<Rightarrow> string \<Rightarrow> Memory" where
  "add_assistant_message m c = add_message m \<lparr>role = ASSISTANT, content = c\<rparr>"

definition add_system_message :: "Memory \<Rightarrow> string \<Rightarrow> Memory" where
  "add_system_message m c = add_message m \<lparr>role = SYSTEM, content = c\<rparr>"

definition get_context :: "Memory \<Rightarrow> Message list" where
  "get_context m =
     (if truthy (mem_system_prompt m)
      then [\<lparr>role = SYSTEM, content = the (mem_system_prompt m)\<rparr>]
      else []) @ messages m"

definition clear :: "Memory \<Rightarrow> Memory" where
  "clear m = m\<lparr>messages := []\<rparr>"

definition pop_last :: "Memory \<Rightarrow> Message option \<times> Memory" where
  "pop_last m =
     (if messages m \<noteq> [] then (Some (last (messages m)), m\<lparr>messages := butlast (messages m)\<rparr>)
      else (None, m))"

text \<open>
  A sequence of appends through the three public operations: each append names the
  role, so \<open>append_all\<close> runs \<open>add_user_message\<close>, \<open>add_assistant_message\<close> or
  \<open>add_system_message\<close> in turn.
\<close>

definition append_one :: "Memory \<Rightarrow> Message \<Rightarrow> Memory" where
  "append_one m msg =
     (case role msg of
        USER \<Rightarrow> add_user_message m (content msg)
      | ASSISTANT \<Rightarrow> add_assistant_message m (content msg)
      | SYSTEM \<Rightarrow> add_system_message m (content msg))"

fun append_all :: "Memory \<Rightarrow> Message list \<Rightarrow> Memory" where
  "append_all m [] = m"
| "append_all m (msg # rest) = append_all (append_one m msg) rest"

text \<open>The last \<open>K\<close> elements of a list, in order (the whole list when it is shorter).\<close>

definition last_k :: "nat \<Rightarrow> 'a list \<Rightarrow> 'a list" where
  "last_k K xs = drop (length xs - K) xs"

section \<open>Exceptions (exceptions.py)\<close>

text \<open>
  Every exception the modelled code can raise is a value of \<open>error\<close>; a function that
  can raise returns \<open>error + 'a\<close> with \<open>Inl\<close> for the raise. \<open>APIError\<close>,
  \<open>RateLimitError\<close> and \<open>AuthenticationError\<close> carry the message and \<open>status_code\<close>
  (their \<open>response\<close> attribute is never set by this code). \<open>ValidationError\<close> is
  pydantic's, raised when a \<open>Field\<close> constraint of a config is violated, and
  \<open>ValueError\<close> is the built-in one raised by \<open>get_provider\<close>.
\<close>

datatype error =
    ValidationError
  | ValueError string
  | ConfigurationError string
  | APIError string "int option"
  | RateLimitError string "int option"
  | AuthenticationError string "int option"

text \<open>
  \<open>isinstance(e, APIError)\<close>: \<open>RateLimitError\<close> and \<open>AuthenticationError\<close> are its
  subclasses.
\<close>

fun is_APIError :: "error \<Rightarrow> bool" where
  "is_APIError (APIError text status) = True"
| "is_APIError (RateLimitError text status) = True"
| "is_APIError (AuthenticationError text status) = True"
| "is_APIError e = False"

section \<open>Provider configuration (core/config.py)\<close>

text \<open>
  The floats \<open>timeout\<close> and \<open>temperature\<close> are only stored, compared with the bounds
  of their \<open>Field\<close> and passed on, so they are modelled as \<open>real\<close>. The class of a
  config object is kept in \<open>config_class\<close>, which is what \<open>isinstance\<close> reads.
\<close>

datatype config_class = ProviderConfigC | OpenAIConfigC | DeepSeekConfigC | ClaudeConfigC

record ProviderConfig =
  config_class :: config_class
  api_key :: string
  model :: string
  base_url :: "string option"
  timeout :: real
  max_retries :: int
  temperature :: real
  max_tokens :: "int option"
  system_prompt :: "string option"

text \<open>
  The \<open>Field\<close> constraints shared by \<open>ProviderConfig\<close>, \<open>OpenAIConfig\<close> and
  \<open>DeepSeekConfig\<close>: \<open>timeout \<ge> 1.0\<close>, \<open>max_retries \<ge> 0\<close>,
  \<open>0.0 \<le> temperature \<le> 2.0\<close>, and \<open>max_tokens \<ge> 1\<close> when it is given.
\<close>

definition field_constraints :: "real \<Rightarrow> int \<Rightarrow> real \<Rightarrow> int option \<Rightarrow> bool" where
  "field_constraints tmo retries temp mtok =
     (1 \<le> tmo \<and> 0 \<le> retries \<and> 0 \<le> temp \<and> temp \<le> 2
      \<and> (case mtok of None \<Rightarrow> True | Some n \<Rightarrow> 1 \<le> n))"

definition valid_config :: "ProviderConfig \<Rightarrow> bool" where
  "valid_config cfg =
     field_constraints (timeout cfg) (max_retries cfg) (temperature cfg) (max_tokens cfg)"

text \<open>\<open>ProviderConfig(api_key=..., model=..., ...)\<close>: the object, or pydantic's error.\<close>

definition ProviderConfig_new ::
  "string \<Rightarrow> string \<Rightarrow> string option \<Rightarrow> real \<Rightarrow> int option \<Rightarrow> real \<Rightarrow> int \<Rightarrow> string option
     \<Rightarrow> error + ProviderConfig" where
  "ProviderConfig_new key mdl url temp mtok tmo retries sp =
     (if field_constraints tmo retries temp mtok
      then Inr \<lparr>config_class = ProviderConfigC, api_key = key, model = mdl, base_url = url,
                timeout = tmo, max_retries = retries, temperature = temp, max_tokens = mtok,
                system_prompt = sp\<rparr>
      else Inl ValidationError)"

definition OpenAIConfig_default_base_url :: string where
  "OpenAIConfig_default_base_url = ''https://api.openai.com/v1''"

definition OpenAIConfig_default_model :: string where
  "OpenAIConfig_default_model = ''gpt-4o-mini''"

definition DeepSeekConfig_default_base_url :: string where
  "DeepSeekConfig_default_base_url = ''https://api.deepseek.com''"

definition DeepSeekConfig_default_model :: string where
  "DeepSeekConfig_default_model = ''deepseek-chat''"

section \<open>Provider construction (providers/openai.py, providers/deepseek.py)\<close>

datatype provider_class = OpenAIProvider | DeepSeekProvider

text \<open>
  A provider instance: its class and its config (the vendor client handle built by
  \<open>_init_client\<close> is the external collaborator and appears as the \<open>create\<close> argument
  of \<open>chat\<close> and \<open>stream_chat\<close> below).

  \<open>__init__\<close> rebuilds a config of the vendor's class from a config of another class.
  The rebuilt object is validated under the same \<open>Field\<close> constraints as its source
  (\<open>rebuilt_config_valid\<close> below), so the rebuild itself does not raise.
\<close>

record Provider =
  cls :: provider_class
  config :: ProviderConfig

definition OpenAIProvider_init :: "ProviderConfig \<Rightarrow> Provider" where
  "OpenAIProvider_init cfg =
     \<lparr>cls = OpenAIProvider,
      config =
        (if config_class cfg \<noteq> OpenAIConfigC
         then \<lparr>config_class = OpenAIConfigC,
               api_key = api_key cfg,
               model = model cfg,
               base_url = Some (or_else (base_url cfg) OpenAIConfig_default_base_url),
               timeout = timeout cfg,
               max_retries = max_retries cfg,
               temperature = temperature cfg,
               max_tokens = max_tokens cfg,
               system_prompt = system_prompt cfg\<rparr>
         else cfg)\<rparr>"

definition DeepSeekProvider_init :: "ProviderConfig \<Rightarrow> Provider" where
  "DeepSeekProvider_init cfg =
     \<lparr>cls = DeepSeekProvider,
      config =
        (if config_class cfg \<noteq> DeepSeekConfigC
         then \<lparr>config_class = DeepSeekConfigC,
               api_key = api_key cfg,
               model = or_else (Some (model cfg)) DeepSeekConfig_default_model,
               base_url = Some (or_else (base_url cfg) DeepSeekConfig_default_base_url),
               timeout = timeout cfg,
               max_retries = max_retries cfg,
               temperature = temperature cfg,
               max_tokens = max_tokens cfg,
               system_prompt = system_prompt cfg\<rparr>
         else cfg)\<rparr>"

text \<open>\<open>provider_class(config)\<close>: the constructor of the class looked up in the registry.\<close>

fun provider_new :: "provider_class \<Rightarrow> ProviderConfig \<Rightarrow> Provider" where
  "provider_new OpenAIProvider cfg = OpenAIProvider_init cfg"
| "provider_new DeepSeekProvider cfg = DeepSeekProvider_init cfg"

fun default_model :: "provider_class \<Rightarrow> string" where
  "default_model OpenAIProvider = OpenAIConfig_default_model"
| "default_model DeepSeekProvider = DeepSeekConfig_default_model"

fun default_base_url :: "provider_class \<Rightarrow> string" where
  "default_base_url OpenAIProvider = OpenAIConfig_default_base_url"
| "default_base_url DeepSeekProvider = DeepSeekConfig_default_base_url"

section \<open>Shared wire preparation (core/base.py)\<close>

definition prepare_messages :: "ProviderConfig \<Rightarrow> Message list \<Rightarrow> dict list" where
  "prepare_messages cfg msgs =
     (if truthy (system_prompt cfg)
      then [[(''role'', ''system''), (''content'', the (system_prompt cfg))]]
      else []) @ map to_dict msgs"

section \<open>The OpenAI-compatible vendor client\<close>

text \<open>
  The vendor SDK is outside the repository. What the adapters use of it is modelled as
  data: the keyword arguments of \<open>chat.completions.create\<close> (the request on the
  wire), the completion or the stream of completion chunks it returns, and the
  exception it raises. An exception is what \<open>isinstance\<close> in \<open>_handle_error\<close> can
  tell apart, with \<open>str(error)\<close> as payload; \<open>OtherException\<close> is any other
  \<open>Exception\<close>.
\<close>

datatype openai_exception =
    OpenAIAuthError string
  | OpenAIRateLimitError string
  | APIConnectionError string
  | OtherException string

record completion_request =
  req_model :: string
  req_messages :: "dict list"
  req_temperature :: real
  req_max_tokens :: "int option"
  req_stream :: bool

record Usage =
  prompt_tokens :: int
  completion_tokens :: int
  total_tokens :: int

record completion_choice =
  message_content :: "string option"
  choice_finish_reason :: "string option"

record completion =
  choices :: "completion_choice list"
  completion_model :: string
  completion_usage :: "Usage option"

record chunk_choice =
  delta_content :: "string option"
  chunk_finish_reason :: "string option"

record completion_chunk =
  chunk_choices :: "chunk_choice list"

text \<open>
  A blocking call returns a completion or raises. A streaming call delivers a finite
  list of chunks and then either ends or raises (a raise by \<open>create\<close> itself is the
  empty list followed by the exception).
\<close>

type_synonym create_fn = "completion_request \<Rightarrow> openai_exception + completion"

type_synonym create_stream_fn =
  "completion_request \<Rightarrow> completion_chunk list \<times> openai_exception option"

section \<open>Canonical responses (core/types.py)\<close>

text \<open>\<open>raw_response\<close>, an opaque dump of the vendor object, is left out.\<close>

record ChatResponse =
  resp_content :: string
  resp_model :: string
  resp_usage :: "Usage option"
  resp_finish_reason :: "string option"

record StreamChunk =
  chunk_content :: string
  finish_reason :: "string option"
  is_final :: bool

section \<open>OpenAI-compatible adapters (providers/openai.py, providers/deepseek.py)\<close>

fun OpenAIProvider_handle_error :: "openai_exception \<Rightarrow> error" where
  "OpenAIProvider_handle_error (OpenAIAuthError s) =
     AuthenticationError ''Invalid API key or unauthorized access'' (Some 401)"
| "OpenAIProvider_handle_error (OpenAIRateLimitError s) =
     RateLimitError ''Rate limit exceeded. Please try again later.'' (Some 429)"
| "OpenAIProvider_handle_error (APIConnectionError s) =
     APIError (''Failed to connect to OpenAI API: '' @ s) None"
| "OpenAIProvider_handle_error (OtherException s) =
     APIError (''OpenAI API error: '' @ s) None"

fun DeepSeekProvider_handle_error :: "openai_exception \<Rightarrow> error" where
  "DeepSeekProvider_handle_error (OpenAIAuthError s) =
     AuthenticationError ''Invalid API key or unauthorized access'' (Some 401)"
| "DeepSeekProvider_handle_error (OpenAIRateLimitError s) =
     RateLimitError ''Rate limit exceeded. Please try again later.'' (Some 429)"
| "DeepSeekProvider_handle_error (APIConnectionError s) =
     APIError (''Failed to connect to DeepSeek API: '' @ s) None"
| "DeepSeekProvider_handle_error (OtherException s) =
     APIError (''DeepSeek API error: '' @ s) None"

fun handle_error :: "provider_class \<Rightarrow> openai_exception \<Rightarrow> error" where
  "handle_error OpenAIProvider e = OpenAIProvider_handle_error e"
| "handle_error DeepSeekProvider e = DeepSeekProvider_handle_error e"

text \<open>
  \<open>chat\<close> and \<open>stream_chat\<close> of the two classes are the same code up to the
  \<open>_handle_error\<close> they call, so one definition takes the provider and dispatches on
  its class. The result records the request handed to the vendor (\<open>sent\<close>) next to
  what the method returns or raises.
\<close>

definition chat_request :: "ProviderConfig \<Rightarrow> Message list \<Rightarrow> completion_request" where
  "chat_request cfg msgs =
     \<lparr>req_model = model cfg, req_messages = prepare_messages cfg msgs,
      req_temperature = temperature cfg, req_max_tokens = max_tokens cfg,
      req_stream = False\<rparr>"

definition stream_request :: "ProviderConfig \<Rightarrow> Message list \<Rightarrow> completion_request" where
  "stream_request cfg msgs =
     \<lparr>req_model = model cfg, req_messages = prepare_messages cfg msgs,
      req_temperature = temperature cfg, req_max_tokens = max_tokens cfg,
      req_stream = True\<rparr>"

record chat_call =
  sent :: completion_request
  outcome :: "error + ChatResponse"

text \<open>
  \<open>response.choices[0]\<close> on an empty list raises \<open>IndexError\<close> inside the \<open>try\<close>, which
  \<open>_handle_error\<close> receives as any other exception.
\<close>

definition chat :: "create_fn \<Rightarrow> Provider \<Rightarrow> Message list \<Rightarrow> chat_call" where
  "chat create p msgs =
     (let request = chat_request (config p) msgs
      in \<lparr>sent = request,
          outcome =
            (case create request of
               Inl e \<Rightarrow> Inl (handle_error (cls p) e)
             | Inr response \<Rightarrow>
                 (case choices response of
                    [] \<Rightarrow> Inl (handle_error (cls p) (OtherException ''list index out of range''))
                  | choice # _ \<Rightarrow>
                      Inr \<lparr>resp_content = or_else (message_content choice) [],
                           resp_model = completion_model response,
                           resp_usage = completion_usage response,
                           resp_finish_reason = choice_finish_reason choice\<rparr>))\<rparr>)"

text \<open>The body of the \<open>for chunk in stream\<close> loop: the chunks one vendor chunk yields.\<close>

definition stream_step :: "completion_chunk \<Rightarrow> StreamChunk list" where
  "stream_step chunk =
     (case chunk_choices chunk of
        [] \<Rightarrow> []
      | choice # _ \<Rightarrow>
          if truthy (delta_content choice)
          then [\<lparr>chunk_content = the (delta_content choice),
                 finish_reason = chunk_finish_reason choice,
                 is_final = (chunk_finish_reason choice \<noteq> None)\<rparr>]
          else if truthy (chunk_finish_reason choice)
          then [\<lparr>chunk_content = [],
                 finish_reason = chunk_finish_reason choice,
                 is_final = True\<rparr>]
          else [])"

fun stream_loop :: "completion_chunk list \<Rightarrow> StreamChunk list" where
  "stream_loop [] = []"
| "stream_loop (chunk # rest) = stream_step chunk @ stream_loop rest"

text \<open>The finish reason the loop body reads from a vendor chunk, if it has a choice.\<close>

definition delta_finish_reason :: "completion_chunk \<Rightarrow> string option" where
  "delta_finish_reason chunk =
     (case chunk_choices chunk of [] \<Rightarrow> None | choice # _ \<Rightarrow> chunk_finish_reason choice)"

record stream_call =
  stream_sent :: completion_request
  yielded :: "StreamChunk list"
  raised :: "error option"

definition stream_chat :: "create_stream_fn \<Rightarrow> Provider \<Rightarrow> Message list \<Rightarrow> stream_call" where
  "stream_chat create p msgs =
     (let request = stream_request (config p) msgs
      in \<lparr>stream_sent = request,
          yielded = stream_loop (fst (create request)),
          raised = map_option (handle_error (cls p)) (snd (create request))\<rparr>)"

section \<open>Gemini adapter (providers/gemini.py)\<close>

text \<open>
  The exceptions of \<open>google.api_core\<close> as \<open>isinstance\<close> tells them apart, most specific
  class first; \<open>GoogleAPIError\<close> carries \<open>getattr(error, "code", None)\<close>. The flag
  \<open>api_core\<close> of \<open>GeminiProvider_handle_error\<close> says whether \<open>google.api_core\<close> can be
  imported. The vendor stream is the list of the \<open>text\<close> of each chunk and the
  exception it ends with, if any. The class \<open>GeminiConfig\<close> the module imports is not
  in core/config.py; the adapter reads only fields that \<open>ProviderConfig\<close> has.
\<close>

datatype google_exception =
    Unauthenticated string
  | ResourceExhausted string
  | GoogleAPIError string "int option"
  | NonGoogleException string

fun google_exception_str :: "google_exception \<Rightarrow> string" where
  "google_exception_str (Unauthenticated s) = s"
| "google_exception_str (ResourceExhausted s) = s"
| "google_exception_str (GoogleAPIError s c) = s"
| "google_exception_str (NonGoogleException s) = s"

fun GeminiProvider_handle_error :: "bool \<Rightarrow> google_exception \<Rightarrow> error" where
  "GeminiProvider_handle_error False e =
     APIError (''Gemini API error: '' @ google_exception_str e) None"
| "GeminiProvider_handle_error True (Unauthenticated s) =
     AuthenticationError ''Invalid Gemini API key or unauthorized access'' (Some 401)"
| "GeminiProvider_handle_error True (ResourceExhausted s) =
     RateLimitError ''Gemini rate limit exceeded. Please try again later.'' (Some 429)"
| "GeminiProvider_handle_error True (GoogleAPIError s status) =
     APIError (''Gemini API error: '' @ s) status"
| "GeminiProvider_handle_error True (NonGoogleException s) =
     APIError (''Gemini API error: '' @ s) None"

fun join :: "string \<Rightarrow> string list \<Rightarrow> string" where
  "join sep [] = []"
| "join sep [x] = x"
| "join sep (x # y # ys) = x @ sep @ join sep (y # ys)"

fun build_prompt_part :: "Message \<Rightarrow> string" where
  "build_prompt_part msg =
     (case role msg of
        SYSTEM \<Rightarrow> ''System: '' @ content msg
      | USER \<Rightarrow> ''User: '' @ content msg
      | ASSISTANT \<Rightarrow> ''Assistant: '' @ content msg)"

definition build_prompt :: "ProviderConfig \<Rightarrow> Message list \<Rightarrow> string" where
  "build_prompt cfg msgs =
     join [CHR 0x0A]
       ((if truthy (system_prompt cfg) then [''System: '' @ the (system_prompt cfg)] else [])
        @ map build_prompt_part msgs)"

text \<open>
  \<open>GeminiProvider.chat\<close>: the vendor response is read through
  \<open>getattr(response, "text", "")\<close> and \<open>getattr(response, "usage_metadata", None)\<close>,
  whose three counts default to zero and are taken as given here.
\<close>

record generate_content_response =
  response_text :: "string option"
  usage_metadata :: "Usage option"

definition GeminiProvider_chat ::
  "bool \<Rightarrow> (string \<Rightarrow> google_exception + generate_content_response) \<Rightarrow> ProviderConfig
     \<Rightarrow> Message list \<Rightarrow> error + ChatResponse" where
  "GeminiProvider_chat api_core generate_content cfg msgs =
     (case generate_content (build_prompt cfg msgs) of
        Inl e \<Rightarrow> Inl (GeminiProvider_handle_error api_core e)
      | Inr response \<Rightarrow>
          Inr \<lparr>resp_content = or_else (response_text response) [],
               resp_model = model cfg,
               resp_usage = usage_metadata response,
               resp_finish_reason = None\<rparr>)"

fun GeminiProvider_stream_loop :: "string list \<Rightarrow> StreamChunk list" where
  "GeminiProvider_stream_loop [] = []"
| "GeminiProvider_stream_loop (text # rest) =
     (if text \<noteq> []
      then [\<lparr>chunk_content = text, finish_reason = None, is_final = False\<rparr>]
      else []) @ GeminiProvider_stream_loop rest"

record gemini_stream_call =
  gemini_sent :: string
  gemini_yielded :: "StreamChunk list"
  gemini_raised :: "error option"

definition GeminiProvider_stream_chat ::
  "bool \<Rightarrow> (string \<Rightarrow> string list \<times> google_exception option) \<Rightarrow> ProviderConfig
     \<Rightarrow> Message list \<Rightarrow> gemini_stream_call" where
  "GeminiProvider_stream_chat api_core generate_content cfg msgs =
     (let prompt = build_prompt cfg msgs
      in \<lparr>gemini_sent = prompt,
          gemini_yielded =
            GeminiProvider_stream_loop (fst (generate_content prompt))
            @ (case snd (generate_content prompt) of
                 None \<Rightarrow> [\<lparr>chunk_content = [], finish_reason = Some ''stop'', is_final = True\<rparr>]
               | Some e \<Rightarrow> []),
          gemini_raised =
            map_option (GeminiProvider_handle_error api_core) (snd (generate_content prompt))\<rparr>)"

section \<open>Provider registry (providers/__init__.py)\<close>

text \<open>
  \<open>str.lower\<close> on the letters \<open>A\<close> to \<open>Z\<close>; every other character is kept. Provider
  names are taken to be ASCII (a \<open>char\<close> is a byte).
\<close>

definition lower_char :: "char \<Rightarrow> char" where
  "lower_char c =
     (case map_of (zip ''ABCDEFGHIJKLMNOPQRSTUVWXYZ'' ''abcdefghijklmnopqrstuvwxyz'') c of
        None \<Rightarrow> c
      | Some l \<Rightarrow> l)"

definition lower :: "string \<Rightarrow> string" where
  "lower s = map lower_char s"

text \<open>
  The registry is a \<open>dict\<close> from names to provider classes, kept as an association
  list in insertion order: \<open>map_of\<close> is \<open>dict.get\<close>, \<open>map fst\<close> is \<open>keys()\<close>, and
  \<open>AList.update\<close> is item assignment (an existing key keeps its place, a new one goes
  last).
\<close>

type_synonym registry = "(string \<times> provider_class) list"

definition PROVIDERS :: registry where
  "PROVIDERS = [(''openai'', OpenAIProvider), (''deepseek'', DeepSeekProvider)]"

definition get_provider :: "registry \<Rightarrow> string \<Rightarrow> error + provider_class" where
  "get_provider reg name =
     (case map_of reg (lower name) of
        None \<Rightarrow>
          (let available = join '', '' (map fst reg)
           in Inl (ValueError (''Unknown provider: '' @ name @ ''. Available: '' @ available)))
      | Some provider \<Rightarrow> Inr provider)"

definition register_provider :: "string \<Rightarrow> provider_class \<Rightarrow> registry \<Rightarrow> registry" where
  "register_provider name provider_class reg = AList.update (lower name) provider_class reg"

text \<open>A registry reached from the built-in one by a sequence of \<open>register_provider\<close> calls.\<close>

fun register_all :: "(string \<times> provider_class) list \<Rightarrow> registry \<Rightarrow> registry" where
  "register_all [] reg = reg"
| "register_all ((name, c) # rest) reg = register_all rest (register_provider name c reg)"

section \<open>Facade (client.py)\<close>

record UniAI =
  provider_name :: string
  memory :: Memory
  provider :: Provider

text \<open>
  \<open>_create_provider\<close>: \<open>except ValueError\<close> turns the registry's error into a
  \<open>ConfigurationError\<close> with the same text.
\<close>

definition create_provider :: "registry \<Rightarrow> string \<Rightarrow> ProviderConfig \<Rightarrow> error + Provider" where
  "create_provider reg name cfg =
     (case get_provider reg name of
        Inl (ValueError text) \<Rightarrow> Inl (ConfigurationError text)
      | Inl e \<Rightarrow> Inl e
      | Inr provider_class \<Rightarrow> Inr (provider_new provider_class cfg))"

record init_args =
  arg_provider :: string
  arg_api_key :: string
  arg_model :: "string option"
  arg_base_url :: "string option"
  arg_system_prompt :: "string option"
  arg_temperature :: real
  arg_max_tokens :: "int option"
  arg_max_history :: "int option"
  arg_timeout :: real
  arg_max_retries :: int

text \<open>
  \<open>UniAI.__init__\<close>. The config is built, and validated, before the provider is
  looked up, outside the \<open>try\<close> of \<open>_create_provider\<close>.
\<close>

definition UniAI_init :: "registry \<Rightarrow> init_args \<Rightarrow> error + UniAI" where
  "UniAI_init reg a =
     (let name = lower (arg_provider a);
          mem = Memory_init (arg_max_history a) (arg_system_prompt a)
      in case ProviderConfig_new (arg_api_key a) (or_else (arg_model a) []) (arg_base_url a)
                (arg_temperature a) (arg_max_tokens a) (arg_timeout a) (arg_max_retries a)
                (arg_system_prompt a) of
           Inl e \<Rightarrow> Inl e
         | Inr cfg \<Rightarrow>
             (case create_provider reg name cfg of
                Inl e \<Rightarrow> Inl e
              | Inr p \<Rightarrow> Inr \<lparr>provider_name = name, memory = mem, provider = p\<rparr>))"

text \<open>
  \<open>UniAI.chat\<close>: the facade after the call, the request that reached the vendor, and
  the returned text or the raised error.
\<close>

record chat_result =
  chat_facade :: UniAI
  chat_wire :: completion_request
  chat_returned :: "error + string"

definition UniAI_chat :: "create_fn \<Rightarrow> UniAI \<Rightarrow> string \<Rightarrow> chat_result" where
  "UniAI_chat create f message =
     (let mem1 = add_user_message (memory f) message;
          call = chat create (provider f) (messages mem1)
      in case outcome call of
           Inl e \<Rightarrow> \<lparr>chat_facade = f\<lparr>memory := mem1\<rparr>, chat_wire = sent call,
                      chat_returned = Inl e\<rparr>
         | Inr response \<Rightarrow>
             \<lparr>chat_facade = f\<lparr>memory := add_assistant_message mem1 (resp_content response)\<rparr>,
              chat_wire = sent call,
              chat_returned = Inr (resp_content response)\<rparr>)"

text \<open>
  \<open>UniAI.stream\<close>, driven to its end by the caller. The loop collects the non-empty
  chunk contents, which are also what the generator yields; the assistant message is
  appended after the loop, so only when the provider's generator did not raise.
\<close>

fun collect :: "StreamChunk list \<Rightarrow> string list \<Rightarrow> string list" where
  "collect [] full_response = full_response"
| "collect (chunk # rest) full_response =
     (if chunk_content chunk \<noteq> []
      then collect rest (full_response @ [chunk_content chunk])
      else collect rest full_response)"

record stream_result =
  stream_facade :: UniAI
  stream_wire :: completion_request
  stream_yielded :: "string list"
  stream_raised :: "error option"

definition UniAI_stream :: "create_stream_fn \<Rightarrow> UniAI \<Rightarrow> string \<Rightarrow> stream_result" where
  "UniAI_stream create f message =
     (let mem1 = add_user_message (memory f) message;
          call = stream_chat create (provider f) (messages mem1);
          full_response = collect (yielded call) []
      in case raised call of
           Some e \<Rightarrow> \<lparr>stream_facade = f\<lparr>memory := mem1\<rparr>, stream_wire = stream_sent call,
                       stream_yielded = full_response, stream_raised = Some e\<rparr>
         | None \<Rightarrow>
             \<lparr>stream_facade = f\<lparr>memory := add_assistant_message mem1 (concat full_response)\<rparr>,
              stream_wire = stream_sent call,
              stream_yielded = full_response, stream_raised = None\<rparr>)"

text \<open>
  \<open>UniAI.switch_provider\<close>. \<open>kwargs\<close> holds the optional overrides; an absent key is
  \<open>None\<close>, so a present \<open>max_tokens=None\<close> is \<open>Some None\<close>. The provider name is
  assigned before \<open>_create_provider\<close> runs. The result is the raised error, if any,
  and the facade as the call leaves it.
\<close>

record switch_kwargs =
  kw_temperature :: "real option"
  kw_max_tokens :: "int option option"
  kw_timeout :: "real option"
  kw_max_retries :: "int option"
  kw_system_prompt :: "string option option"

fun kwargs_get :: "'a option \<Rightarrow> 'a \<Rightarrow> 'a" where
  "kwargs_get None d = d"
| "kwargs_get (Some v) d = v"

definition switch_provider ::
  "registry \<Rightarrow> UniAI \<Rightarrow> string \<Rightarrow> string \<Rightarrow> string option \<Rightarrow> string option \<Rightarrow> bool
     \<Rightarrow> switch_kwargs \<Rightarrow> error option \<times> UniAI" where
  "switch_provider reg f name key mdl url keep_history kwargs =
     (case ProviderConfig_new key (or_else mdl []) url
             (kwargs_get (kw_temperature kwargs) (temperature (config (provider f))))
             (kwargs_get (kw_max_tokens kwargs) (max_tokens (config (provider f))))
             (kwargs_get (kw_timeout kwargs) (timeout (config (provider f))))
             (kwargs_get (kw_max_retries kwargs) (max_retries (config (provider f))))
             (kwargs_get (kw_system_prompt kwargs) (mem_system_prompt (memory f))) of
        Inl e \<Rightarrow> (Some e, f)
      | Inr cfg \<Rightarrow>
          (let f1 = f\<lparr>provider_name := lower name\<rparr>
           in case create_provider reg (provider_name f1) cfg of
                Inl e \<Rightarrow> (Some e, f1)
              | Inr p \<Rightarrow>
                  (let f2 = f1\<lparr>provider := p\<rparr>
                   in (None, if \<not> keep_history then f2\<lparr>memory := clear (memory f2)\<rparr> else f2))))"

definition get_history :: "UniAI \<Rightarrow> dict list" where
  "get_history f = map to_dict (messages (memory f))"

text \<open>
  The directive in effect: \<open>None\<close> when it is unset or the empty string, which is how
  \<open>if self._system_prompt:\<close> and \<open>if self.config.system_prompt:\<close> read it.
\<close>

definition directive :: "string option \<Rightarrow> string option" where
  "directive sp = (if truthy sp then sp else None)"

section \<open>Example inputs\<close>

text \<open>
  Concrete arguments, the facade they construct, and vendor behaviours: a vendor that
  rejects the key, one that answers, and streams that end with a finish signal, end
  without one, or break off.
\<close>

definition example_args :: init_args where
  "example_args =
     \<lparr>arg_provider = ''OpenAI'', arg_api_key = ''sk-test'', arg_model = None,
      arg_base_url = None, arg_system_prompt = Some ''Be brief.'', arg_temperature = 1,
      arg_max_tokens = None, arg_max_history = None, arg_timeout = 60,
      arg_max_retries = 3\<rparr>"

definition example_config :: ProviderConfig where
  "example_config =
     \<lparr>config_class = ProviderConfigC, api_key = ''sk-test'', model = [], base_url = None,
      timeout = 60, max_retries = 3, temperature = 1, max_tokens = None,
      system_prompt = Some ''Be brief.''\<rparr>"

definition example_facade :: UniAI where
  "example_facade =
     \<lparr>provider_name = ''openai'',
      memory = \<lparr>messages = [], max_messages = None, mem_system_prompt = Some ''Be brief.''\<rparr>,
      provider =
        \<lparr>cls = OpenAIProvider,
         config =
           \<lparr>config_class = OpenAIConfigC, api_key = ''sk-test'', model = [],
            base_url = Some ''https://api.openai.com/v1'', timeout = 60, max_retries = 3,
            temperature = 1, max_tokens = None, system_prompt = Some ''Be brief.''\<rparr>\<rparr>\<rparr>"

definition no_kwargs :: switch_kwargs where
  "no_kwargs =
     \<lparr>kw_temperature = None, kw_max_tokens = None, kw_timeout = None, kw_max_retries = None,
      kw_system_prompt = None\<rparr>"

definition rejecting_create :: create_fn where
  "rejecting_create request = Inl (OpenAIAuthError ''Incorrect API key provided'')"

definition answering_create :: create_fn where
  "answering_create request =
     Inr \<lparr>choices = [\<lparr>message_content = Some ''Hello!'', choice_finish_reason = Some ''stop''\<rparr>],
          completion_model = ''gpt-4o-mini'', completion_usage = None\<rparr>"

definition content_delta :: "string \<Rightarrow> completion_chunk" where
  "content_delta text =
     \<lparr>chunk_choices = [\<lparr>delta_content = Some text, chunk_finish_reason = None\<rparr>]\<rparr>"

definition finish_delta :: "string \<Rightarrow> completion_chunk" where
  "finish_delta reason =
     \<lparr>chunk_choices = [\<lparr>delta_content = None, chunk_finish_reason = Some reason\<rparr>]\<rparr>"

definition finished_stream :: create_stream_fn where
  "finished_stream request =
     ([content_delta ''Once'', content_delta '' upon'', content_delta '' a time'',
       finish_delta ''stop''], None)"

definition unfinished_stream :: create_stream_fn where
  "unfinished_stream request = ([content_delta ''Once''], None)"

definition broken_stream :: create_stream_fn where
  "broken_stream request =
     ([content_delta ''Once''], Some (APIConnectionError ''Connection error.''))"

definition rejecting_stream :: create_stream_fn where
  "rejecting_stream request = ([], Some (OpenAIAuthError ''Incorrect API key provided''))"

definition gemini_rejecting_generate ::
  "string \<Rightarrow> google_exception + generate_content_response" where
  "gemini_rejecting_generate prompt = Inl (Unauthenticated ''API key not valid'')"

definition gemini_rejecting_stream :: "string \<Rightarrow> string list \<times> google_exception option" where
  "gemini_rejecting_stream prompt = ([], Some (Unauthenticated ''API key not valid''))"

definition gemini_finished_stream :: "string \<Rightarrow> string list \<times> google_exception option" where
  "gemini_finished_stream prompt = ([''Once'', [], '' upon a time''], None)"

definition override_kwargs :: switch_kwargs where
  "override_kwargs = no_kwargs\<lparr>kw_system_prompt := Some (Some ''Answer in French.'')\<rparr>"

text \<open>
  The example facade after a switch to DeepSeek that overrides the system directive,
  and after one answered chat.
\<close>

definition switched_facade :: UniAI where
  "switched_facade =
     snd (switch_provider PROVIDERS example_facade ''deepseek'' ''sk-other'' None None True
            override_kwargs)"

definition talked_facade :: UniAI where
  "talked_facade = chat_facade (UniAI_chat answering_create example_facade ''hi'')"

section \<open>Memory: bounded history\<close>

lemma append_one_add_message: "append_one m msg = add_message m msg"
  by (cases msg; cases "role msg")
     (simp_all add: append_one_def add_user_message_def add_assistant_message_def
        add_system_message_def)

lemma add_message_bound [simp]: "max_messages (add_message m msg) = max_messages m"
  by (simp add: add_message_def enforce_limit_def Let_def split: option.splits)

lemma add_message_prompt [simp]:
  "mem_system_prompt (add_message m msg) = mem_system_prompt m"
  by (simp add: add_message_def enforce_limit_def Let_def split: option.splits)

lemma add_message_unbounded:
  "max_messages m = None \<Longrightarrow> messages (add_message m msg) = messages m @ [msg]"
  by (simp add: add_message_def enforce_limit_def)

lemma add_message_bounded:
  assumes "max_messages m = Some k" and "0 \<le> k"
  shows "messages (add_message m msg) = last_k (nat k) (messages m @ [msg])"
proof (cases "int (length (messages m)) + 1 > k")
  case True
  then have "nat (1 + int (length (messages m)) - k) = Suc (length (messages m)) - nat k"
    using assms(2) by linarith
  with True assms(1) show ?thesis
    by (simp add: add_message_def enforce_limit_def Let_def last_k_def)
next
  case False
  then have "Suc (length (messages m)) - nat k = 0"
    using assms(2) by linarith
  with False assms(1) show ?thesis
    by (simp add: add_message_def enforce_limit_def Let_def last_k_def)
qed

lemma last_k_append: "last_k K (last_k K xs @ ys) = last_k K (xs @ ys)"
proof (cases "length xs \<le> K")
  case True
  then show ?thesis by (simp add: last_k_def)
next
  case False
  then have a: "length (drop (length xs - K) xs) = K" by simp
  have "drop (length (drop (length xs - K) xs @ ys) - K) (drop (length xs - K) xs @ ys)
          = drop (length ys) (drop (length xs - K) xs @ ys)"
    using a by simp
  also have "\<dots> = drop (length ys) (drop (length xs - K) (xs @ ys))"
    using False by simp
  also have "\<dots> = drop (length ys + (length xs - K)) (xs @ ys)"
    by (simp only: drop_drop)
  also have "length ys + (length xs - K) = length (xs @ ys) - K"
    using False by simp
  finally show ?thesis by (simp only: last_k_def)
qed

lemma last_k_long: "K \<le> length ys \<Longrightarrow> last_k K (xs @ ys) = last_k K ys"
  by (simp add: last_k_def)

lemma length_last_k: "length (last_k K xs) = min K (length xs)"
  by (simp add: last_k_def)

text \<open>
  The stored sequence after a run of appends is a suffix of everything ever appended:
  the last \<open>k\<close> entries of the old content followed by the new messages.
\<close>

lemma append_all_bounded:
  assumes "max_messages m = Some k" and "0 \<le> k" and "new \<noteq> []"
  shows "messages (append_all m new) = last_k (nat k) (messages m @ new)"
  using assms
proof (induction new arbitrary: m)
  case Nil
  then show ?case by simp
next
  case (Cons msg rest)
  let ?m1 = "add_message m msg"
  have m1: "messages ?m1 = last_k (nat k) (messages m @ [msg])"
    using Cons.prems(1,2) by (rule add_message_bounded)
  have b1: "max_messages ?m1 = Some k"
    using Cons.prems(1) by simp
  have step: "append_all m (msg # rest) = append_all ?m1 rest"
    by (simp add: append_one_add_message)
  show ?case
  proof (cases "rest = []")
    case True
    then show ?thesis
      by (simp add: append_one_add_message m1)
  next
    case False
    have "messages (append_all ?m1 rest) = last_k (nat k) (messages ?m1 @ rest)"
      using b1 Cons.prems(2) False by (rule Cons.IH)
    also have "\<dots> = last_k (nat k) ((messages m @ [msg]) @ rest)"
      by (simp only: m1 last_k_append)
    finally show ?thesis
      by (simp add: append_one_add_message)
  qed
qed

text \<open>
  C2. A Memory bounded at \<open>K\<close> (a message count) that receives \<open>N > K\<close> appends,
  through \<open>add_user_message\<close>, \<open>add_assistant_message\<close> and \<open>add_system_message\<close> in
  any mix and from any starting content, then stores exactly \<open>K\<close> messages: the last
  \<open>K\<close> appended ones, in the order they were appended.
\<close>

theorem bounded_memory_keeps_last_k:
  assumes "max_messages m = Some K" and "0 \<le> K" and "int (length new) > K"
  shows "messages (append_all m new) = last_k (nat K) new
         \<and> int (length (messages (append_all m new))) = K
         \<and> messages (append_all m new) = drop (length new - nat K) new"
proof -
  from assms(2,3) have ne: "new \<noteq> []" and le: "nat K \<le> length new"
    by auto
  have eq: "messages (append_all m new) = last_k (nat K) new"
    using append_all_bounded [OF assms(1,2) ne] le by (simp add: last_k_long)
  moreover have "int (length (last_k (nat K) new)) = K"
    using le assms(2) by (simp add: length_last_k)
  ultimately show ?thesis
    by (simp add: last_k_def)
qed

theorem bounded_memory_keeps_last_k_witness:
  "max_messages (Memory_init (Some 2) None) = Some 2 \<and> (0::int) \<le> 2
   \<and> int (length [\<lparr>role = USER, content = ''a''\<rparr>, \<lparr>role = ASSISTANT, content = ''b''\<rparr>,
                    \<lparr>role = SYSTEM, content = ''c''\<rparr>]) > 2
   \<and> messages (append_all (Memory_init (Some 2) None)
         [\<lparr>role = USER, content = ''a''\<rparr>, \<lparr>role = ASSISTANT, content = ''b''\<rparr>,
          \<lparr>role = SYSTEM, content = ''c''\<rparr>])
       = [\<lparr>role = ASSISTANT, content = ''b''\<rparr>, \<lparr>role = SYSTEM, content = ''c''\<rparr>]"
  using bounded_memory_keeps_last_k [of "Memory_init (Some 2) None" 2
          "[\<lparr>role = USER, content = ''a''\<rparr>, \<lparr>role = ASSISTANT, content = ''b''\<rparr>,
            \<lparr>role = SYSTEM, content = ''c''\<rparr>]"]
  by (simp add: Memory_init_def last_k_def)

section \<open>Memory: the system directive\<close>

text \<open>
  C10. A system directive that is the empty string counts as absent, like an unset one:
  \<open>get_context\<close> returns the stored messages alone and the shared wire preparation
  adds no system entry in front of the converted messages. A non-empty directive is
  put first, as one system message (in \<open>get_context\<close>) or one system-role entry (on
  the wire).
\<close>

theorem empty_directive_is_absent:
  "get_context (m\<lparr>mem_system_prompt := Some []\<rparr>) = messages m
   \<and> prepare_messages (cfg\<lparr>system_prompt := Some []\<rparr>) msgs = map to_dict msgs
   \<and> get_context (m\<lparr>mem_system_prompt := None\<rparr>) = messages m
   \<and> prepare_messages (cfg\<lparr>system_prompt := None\<rparr>) msgs = map to_dict msgs
   \<and> (s \<noteq> [] \<longrightarrow>
        get_context (m\<lparr>mem_system_prompt := Some s\<rparr>)
          = \<lparr>role = SYSTEM, content = s\<rparr> # messages m
        \<and> prepare_messages (cfg\<lparr>system_prompt := Some s\<rparr>) msgs
          = [(''role'', ''system''), (''content'', s)] # map to_dict msgs)"
  by (simp add: get_context_def prepare_messages_def)

theorem empty_directive_is_absent_witness:
  "''Be brief.'' \<noteq> []
   \<and> get_context ((memory example_facade)\<lparr>mem_system_prompt := Some []\<rparr>) = []
   \<and> prepare_messages (example_config\<lparr>system_prompt := Some []\<rparr>)
        [\<lparr>role = USER, content = ''hi''\<rparr>] = [[(''role'', ''user''), (''content'', ''hi'')]]
   \<and> prepare_messages (example_config\<lparr>system_prompt := Some ''Be brief.''\<rparr>)
        [\<lparr>role = USER, content = ''hi''\<rparr>]
      = [[(''role'', ''system''), (''content'', ''Be brief.'')],
         [(''role'', ''user''), (''content'', ''hi'')]]"
  using empty_directive_is_absent [of "memory example_facade" example_config
          "[\<lparr>role = USER, content = ''hi''\<rparr>]" "''Be brief.''"]
  by (simp add: example_facade_def to_dict_def)

section \<open>Facade: a chat whose provider call fails\<close>

lemma add_user_message_unbounded:
  "max_messages m = None \<Longrightarrow>
     messages (add_user_message m c) = messages m @ [\<lparr>role = USER, content = c\<rparr>]"
  by (simp add: add_user_message_def add_message_unbounded)

lemma add_assistant_message_unbounded:
  "max_messages m = None \<Longrightarrow>
     messages (add_assistant_message m c) = messages m @ [\<lparr>role = ASSISTANT, content = c\<rparr>]"
  by (simp add: add_assistant_message_def add_message_unbounded)

lemma add_user_message_bound [simp]:
  "max_messages (add_user_message m c) = max_messages m"
  by (simp add: add_user_message_def)

lemma add_message_last:
  assumes "case max_messages m of None \<Rightarrow> True | Some k \<Rightarrow> 1 \<le> k"
  shows "messages (add_message m msg) \<noteq> [] \<and> last (messages (add_message m msg)) = msg"
proof (cases "max_messages m")
  case None
  then show ?thesis by (simp add: add_message_unbounded)
next
  case (Some k)
  with assms have k: "1 \<le> k" by simp
  then have "length (messages m) + 1 - nat k < length (messages m @ [msg])"
    by simp
  then have "last_k (nat k) (messages m @ [msg]) \<noteq> []
             \<and> last (last_k (nat k) (messages m @ [msg])) = last (messages m @ [msg])"
    unfolding last_k_def by (simp del: drop_append)
  then show ?thesis
    using add_message_bounded [OF Some, of msg] k by simp
qed

lemma example_facade_constructed: "UniAI_init PROVIDERS example_args = Inr example_facade"
  by (simp add: UniAI_init_def example_args_def example_facade_def PROVIDERS_def
      ProviderConfig_new_def field_constraints_def create_provider_def get_provider_def
      lower_def lower_char_def Memory_init_def OpenAIProvider_init_def
      OpenAIConfig_default_base_url_def)

lemma example_chat_rejected:
  "outcome (chat rejecting_create (provider example_facade) msgs)
     = Inl (AuthenticationError ''Invalid API key or unauthorized access'' (Some 401))"
  by (simp add: chat_def rejecting_create_def example_facade_def)

text \<open>
  C9. When the provider's \<open>chat\<close> raises during \<open>UniAI.chat\<close>, the caller gets that
  same error, and the facade is left exactly as the append of the user message left
  it: the user message is not rolled back and no assistant message is appended. With
  no bound on the history the stored messages are the old ones followed by the user
  message, and with no bound or a bound of at least one the user message is the last
  stored message.
\<close>

theorem chat_failure_keeps_user_message:
  assumes "outcome (chat create (provider f) (messages (add_user_message (memory f) message))) = Inl e"
  shows "chat_returned (UniAI_chat create f message) = Inl e
         \<and> chat_facade (UniAI_chat create f message)
             = f\<lparr>memory := add_user_message (memory f) message\<rparr>
         \<and> (max_messages (memory f) = None \<longrightarrow>
              messages (memory (chat_facade (UniAI_chat create f message)))
                = messages (memory f) @ [\<lparr>role = USER, content = message\<rparr>])
         \<and> ((case max_messages (memory f) of None \<Rightarrow> True | Some k \<Rightarrow> 1 \<le> k) \<longrightarrow>
              last (messages (memory (chat_facade (UniAI_chat create f message))))
                = \<lparr>role = USER, content = message\<rparr>)"
proof -
  have r: "UniAI_chat create f message =
      \<lparr>chat_facade = f\<lparr>memory := add_user_message (memory f) message\<rparr>,
       chat_wire = sent (chat create (provider f) (messages (add_user_message (memory f) message))),
       chat_returned = Inl e\<rparr>"
    using assms by (simp add: UniAI_chat_def Let_def)
  show ?thesis
    unfolding r
    by (simp add: add_user_message_unbounded)
       (simp add: add_user_message_def add_message_last)
qed

theorem chat_failure_keeps_user_message_witness:
  "outcome (chat rejecting_create (provider example_facade)
      (messages (add_user_message (memory example_facade) ''hi'')))
     = Inl (AuthenticationError ''Invalid API key or unauthorized access'' (Some 401))
   \<and> chat_returned (UniAI_chat rejecting_create example_facade ''hi'')
     = Inl (AuthenticationError ''Invalid API key or unauthorized access'' (Some 401))
   \<and> messages (memory (chat_facade (UniAI_chat rejecting_create example_facade ''hi'')))
     = [\<lparr>role = USER, content = ''hi''\<rparr>]"
proof -
  have m: "max_messages (memory example_facade) = None" "messages (memory example_facade) = []"
    by (simp_all add: example_facade_def)
  show ?thesis
    using chat_failure_keeps_user_message [OF example_chat_rejected, of "''hi''"]
    by (simp add: example_chat_rejected m add_user_message_unbounded)
qed

section \<open>Registry: lower-casing\<close>

lemma lower_char_idem: "lower_char (lower_char c) = lower_char c"
  by (simp add: lower_char_def)

lemma lower_idem: "lower (lower s) = lower s"
  by (simp add: lower_def lower_char_idem)

section \<open>Registry and facade: unknown provider names\<close>

lemma create_provider_cases:
  "create_provider reg name cfg =
     (case map_of reg (lower name) of
        None \<Rightarrow> Inl (ConfigurationError
                  (''Unknown provider: '' @ name @ ''. Available: '' @ join '', '' (map fst reg)))
      | Some c \<Rightarrow> Inr (provider_new c cfg))"
  by (simp add: create_provider_def get_provider_def Let_def split: option.split)

lemma register_provider_keys_lower:
  assumes "\<forall>k \<in> fst ` set reg. lower k = k"
  shows "\<forall>k \<in> fst ` set (register_provider name c reg). lower k = k"
  using assms by (simp add: register_provider_def dom_update lower_idem)

lemma register_all_keys_lower:
  assumes "\<forall>k \<in> fst ` set reg. lower k = k"
  shows "\<forall>k \<in> fst ` set (register_all regs reg). lower k = k"
  using assms
proof (induction regs arbitrary: reg)
  case Nil
  then show ?case by simp
next
  case (Cons r rest)
  obtain name c where r: "r = (name, c)" by (cases r)
  show ?case
    unfolding r register_all.simps
    by (rule Cons.IH) (rule register_provider_keys_lower [OF Cons.prems])
qed

lemma PROVIDERS_keys_lower: "\<forall>k \<in> fst ` set PROVIDERS. lower k = k"
  by (simp add: PROVIDERS_def lower_def lower_char_def)

lemma get_provider_registered:
  assumes "\<forall>k \<in> fst ` set reg. lower k = k" and "k \<in> fst ` set reg" and "lower q = lower k"
  shows "\<exists>c. get_provider reg q = Inr c \<and> map_of reg k = Some c"
proof -
  from assms(1,2) have "lower k = k" by blast
  with assms(3) have "lower q = k" by simp
  moreover from assms(2) obtain c where "map_of reg k = Some c"
    by (metis map_of_eq_None_iff not_Some_eq)
  ultimately show ?thesis
    by (simp add: get_provider_def)
qed

text \<open>
  C7. A provider name whose lower-cased form is not a key of the registry makes
  \<open>_create_provider\<close> raise a \<open>ConfigurationError\<close> whose message names the name it
  was given and lists the known names in registry order, separated by commas. The
  construction of the facade, and \<open>switch_provider\<close>, hand it the lower-cased name,
  so they raise that error with the attempted name in lower case. Their other
  settings are taken to satisfy the \<open>Field\<close> constraints, which are checked before
  the lookup. In a registry built from the built-in one by \<open>register_provider\<close>,
  every registered name is found whatever the case of the queried name.
\<close>

theorem unknown_provider_is_configuration_error:
  "(lower name \<notin> fst ` set reg
     \<longrightarrow> create_provider reg name cfg
         = Inl (ConfigurationError
             (''Unknown provider: '' @ name @ ''. Available: '' @ join '', '' (map fst reg))))
   \<and> (lower (arg_provider a) \<notin> fst ` set reg
     \<and> field_constraints (arg_timeout a) (arg_max_retries a) (arg_temperature a) (arg_max_tokens a)
     \<longrightarrow> UniAI_init reg a
         = Inl (ConfigurationError
             (''Unknown provider: '' @ lower (arg_provider a) @ ''. Available: ''
              @ join '', '' (map fst reg))))
   \<and> (lower name \<notin> fst ` set reg
       \<and> field_constraints
            (kwargs_get (kw_timeout kwargs) (timeout (config (provider f))))
            (kwargs_get (kw_max_retries kwargs) (max_retries (config (provider f))))
            (kwargs_get (kw_temperature kwargs) (temperature (config (provider f))))
            (kwargs_get (kw_max_tokens kwargs) (max_tokens (config (provider f))))
       \<longrightarrow> fst (switch_provider reg f name key mdl url keep_history kwargs)
           = Some (ConfigurationError
               (''Unknown provider: '' @ lower name @ ''. Available: ''
                @ join '', '' (map fst reg))))
   \<and> (k \<in> fst ` set (register_all regs PROVIDERS) \<and> lower q = lower k
       \<longrightarrow> (\<exists>c. get_provider (register_all regs PROVIDERS) q = Inr c
                \<and> map_of (register_all regs PROVIDERS) k = Some c))"
proof (intro conjI impI)
  assume "lower name \<notin> fst ` set reg"
  then have "map_of reg (lower name) = None"
    by (simp add: map_of_eq_None_iff)
  then show "create_provider reg name cfg
         = Inl (ConfigurationError
             (''Unknown provider: '' @ name @ ''. Available: '' @ join '', '' (map fst reg)))"
    by (simp add: create_provider_cases)
next
  assume h: "lower (arg_provider a) \<notin> fst ` set reg
     \<and> field_constraints (arg_timeout a) (arg_max_retries a) (arg_temperature a) (arg_max_tokens a)"
  then have "map_of reg (lower (lower (arg_provider a))) = None"
    by (simp add: lower_idem map_of_eq_None_iff)
  with h show "UniAI_init reg a
         = Inl (ConfigurationError
             (''Unknown provider: '' @ lower (arg_provider a) @ ''. Available: ''
              @ join '', '' (map fst reg)))"
    by (simp add: UniAI_init_def Let_def ProviderConfig_new_def create_provider_cases)
next
  assume h: "lower name \<notin> fst ` set reg
       \<and> field_constraints
            (kwargs_get (kw_timeout kwargs) (timeout (config (provider f))))
            (kwargs_get (kw_max_retries kwargs) (max_retries (config (provider f))))
            (kwargs_get (kw_temperature kwargs) (temperature (config (provider f))))
            (kwargs_get (kw_max_tokens kwargs) (max_tokens (config (provider f))))"
  then have "map_of reg (lower (lower name)) = None"
    by (simp add: lower_idem map_of_eq_None_iff)
  with h show "fst (switch_provider reg f name key mdl url keep_history kwargs)
           = Some (ConfigurationError
               (''Unknown provider: '' @ lower name @ ''. Available: ''
                @ join '', '' (map fst reg)))"
    by (simp add: switch_provider_def Let_def ProviderConfig_new_def create_provider_cases)
next
  assume "k \<in> fst ` set (register_all regs PROVIDERS) \<and> lower q = lower k"
  then show "\<exists>c. get_provider (register_all regs PROVIDERS) q = Inr c
                \<and> map_of (register_all regs PROVIDERS) k = Some c"
    using get_provider_registered [OF register_all_keys_lower [OF PROVIDERS_keys_lower]]
    by blast
qed

theorem unknown_provider_is_configuration_error_witness:
  "lower (arg_provider (example_args\<lparr>arg_provider := ''Claude''\<rparr>)) \<notin> fst ` set PROVIDERS
   \<and> field_constraints 60 3 1 None
   \<and> lower ''Claude'' \<notin> fst ` set PROVIDERS
   \<and> create_provider PROVIDERS ''Claude'' example_config
       = Inl (ConfigurationError ''Unknown provider: Claude. Available: openai, deepseek'')
   \<and> UniAI_init PROVIDERS (example_args\<lparr>arg_provider := ''Claude''\<rparr>)
       = Inl (ConfigurationError ''Unknown provider: claude. Available: openai, deepseek'')
   \<and> fst (switch_provider PROVIDERS example_facade ''Claude'' ''sk-other'' None None True no_kwargs)
       = Some (ConfigurationError ''Unknown provider: claude. Available: openai, deepseek'')
   \<and> ''deepseek'' \<in> fst ` set (register_all [] PROVIDERS)
   \<and> lower ''DeepSeek'' = lower ''deepseek''
   \<and> get_provider (register_all [] PROVIDERS) ''DeepSeek'' = Inr DeepSeekProvider"
proof -
  have n: "lower (arg_provider (example_args\<lparr>arg_provider := ''Claude''\<rparr>)) = ''claude''"
          "lower ''Claude'' = ''claude''"
          "lower ''DeepSeek'' = lower ''deepseek''"
    by (simp_all add: lower_def lower_char_def)
  have k: "fst ` set PROVIDERS = {''openai'', ''deepseek''}" "map fst PROVIDERS = [''openai'', ''deepseek'']"
    by (simp_all add: PROVIDERS_def)
  have v: "field_constraints 60 3 1 None"
    by (simp add: field_constraints_def)
  have e: "arg_timeout (example_args\<lparr>arg_provider := ''Claude''\<rparr>) = 60"
          "arg_max_retries (example_args\<lparr>arg_provider := ''Claude''\<rparr>) = 3"
          "arg_temperature (example_args\<lparr>arg_provider := ''Claude''\<rparr>) = 1"
          "arg_max_tokens (example_args\<lparr>arg_provider := ''Claude''\<rparr>) = None"
          "timeout (config (provider example_facade)) = 60"
          "max_retries (config (provider example_facade)) = 3"
          "temperature (config (provider example_facade)) = 1"
          "max_tokens (config (provider example_facade)) = None"
    by (simp_all add: example_args_def example_facade_def)
  have g: "get_provider PROVIDERS ''DeepSeek'' = Inr DeepSeekProvider"
    by (simp add: get_provider_def PROVIDERS_def lower_def lower_char_def)
  show ?thesis
    using unknown_provider_is_configuration_error
            [of "''Claude''" PROVIDERS example_config
                "example_args\<lparr>arg_provider := ''Claude''\<rparr>" no_kwargs
                example_facade "''sk-other''" None None True "''deepseek''" "[]" "''DeepSeek''"]
    by (simp add: n k v e g no_kwargs_def)
qed

section \<open>Facade: what reaches the vendor\<close>

lemma chat_sent: "sent (chat create p msgs) = chat_request (config p) msgs"
  by (simp add: chat_def Let_def)

lemma UniAI_chat_wire:
  "chat_wire (UniAI_chat create f message)
     = chat_request (config (provider f)) (messages (add_user_message (memory f) message))"
  by (simp add: UniAI_chat_def Let_def chat_sent split: sum.split)

lemma UniAI_stream_wire:
  "stream_wire (UniAI_stream create f message)
     = stream_request (config (provider f)) (messages (add_user_message (memory f) message))"
  by (simp add: UniAI_stream_def Let_def stream_chat_def split: option.split)

lemma prepare_messages_context:
  assumes "directive (system_prompt cfg) = directive (mem_system_prompt m)"
  shows "prepare_messages cfg (messages m) = map to_dict (get_context m)"
proof (cases "truthy (mem_system_prompt m)")
  case True
  with assms have "truthy (system_prompt cfg)" "system_prompt cfg = mem_system_prompt m"
    by (auto simp: directive_def split: if_splits)
  with True show ?thesis
    by (simp add: prepare_messages_def get_context_def to_dict_def)
next
  case False
  with assms have "\<not> truthy (system_prompt cfg)"
    by (auto simp: directive_def split: if_splits)
  with False show ?thesis
    by (simp add: prepare_messages_def get_context_def)
qed

lemma add_user_message_prompt [simp]:
  "mem_system_prompt (add_user_message m c) = mem_system_prompt m"
  by (simp add: add_user_message_def)

lemma provider_new_system_prompt [simp]:
  "system_prompt (config (provider_new c cfg)) = system_prompt cfg"
  by (cases c) (simp_all add: OpenAIProvider_init_def DeepSeekProvider_init_def)

lemma UniAI_init_directive:
  assumes "UniAI_init reg a = Inr f"
  shows "system_prompt (config (provider f)) = mem_system_prompt (memory f)"
  using assms
  by (auto simp: UniAI_init_def Let_def ProviderConfig_new_def create_provider_def
      Memory_init_def split: if_splits sum.splits error.splits)

lemma provider_new_cls [simp]: "cls (provider_new c cfg) = c"
  by (cases c) (simp_all add: OpenAIProvider_init_def DeepSeekProvider_init_def)

lemma rebuilt_config_valid: "valid_config cfg \<Longrightarrow> valid_config (config (provider_new c cfg))"
  by (cases c) (simp_all add: valid_config_def OpenAIProvider_init_def DeepSeekProvider_init_def)

lemma ProviderConfig_new_valid:
  "ProviderConfig_new key mdl url temp mtok tmo retries sp = Inr cfg \<Longrightarrow> valid_config cfg"
  by (auto simp: ProviderConfig_new_def valid_config_def split: if_splits)

lemma provider_new_base_url:
  "config_class cfg = ProviderConfigC \<Longrightarrow>
     base_url (config (provider_new c cfg)) = Some (or_else (base_url cfg) (default_base_url c))"
  by (cases c) (simp_all add: OpenAIProvider_init_def DeepSeekProvider_init_def)

lemma DeepSeekProvider_model:
  "config_class cfg = ProviderConfigC \<Longrightarrow>
     model (config (provider_new DeepSeekProvider cfg))
       = (if model cfg = [] then default_model DeepSeekProvider else model cfg)"
  by (simp add: DeepSeekProvider_init_def)

lemma OpenAIProvider_model:
  "config_class cfg = ProviderConfigC \<Longrightarrow>
     model (config (provider_new OpenAIProvider cfg)) = model cfg"
  by (simp add: OpenAIProvider_init_def)

lemma switched_facade_value:
  "switch_provider PROVIDERS example_facade ''deepseek'' ''sk-other'' None None True
     override_kwargs
   = (None,
      \<lparr>provider_name = ''deepseek'',
       memory = \<lparr>messages = [], max_messages = None, mem_system_prompt = Some ''Be brief.''\<rparr>,
       provider =
         \<lparr>cls = DeepSeekProvider,
          config =
            \<lparr>config_class = DeepSeekConfigC, api_key = ''sk-other'', model = ''deepseek-chat'',
             base_url = Some ''https://api.deepseek.com'', timeout = 60, max_retries = 3,
             temperature = 1, max_tokens = None,
             system_prompt = Some ''Answer in French.''\<rparr>\<rparr>\<rparr>)"
  by (simp add: switch_provider_def example_facade_def override_kwargs_def no_kwargs_def
      ProviderConfig_new_def field_constraints_def create_provider_def get_provider_def
      PROVIDERS_def lower_def lower_char_def DeepSeekProvider_init_def
      DeepSeekConfig_default_base_url_def DeepSeekConfig_default_model_def Let_def)

text \<open>
  C1 as written fails: \<open>UniAI.chat\<close> and \<open>UniAI.stream\<close> pass \<open>memory.messages\<close>, not
  \<open>get_context()\<close>, and the provider puts its own config's directive in front. After
  a switch that overrides \<open>system_prompt\<close> the provider's directive differs from
  Memory's, and the request carries the provider's.
\<close>

theorem wire_differs_from_context_counterexample:
  "UniAI_init PROVIDERS example_args = Inr example_facade
   \<and> fst (switch_provider PROVIDERS example_facade ''deepseek'' ''sk-other'' None None True
            override_kwargs) = None
   \<and> req_messages (chat_wire (UniAI_chat answering_create switched_facade ''hi''))
       = [[(''role'', ''system''), (''content'', ''Answer in French.'')],
          [(''role'', ''user''), (''content'', ''hi'')]]
   \<and> map to_dict (get_context (add_user_message (memory switched_facade) ''hi''))
       = [[(''role'', ''system''), (''content'', ''Be brief.'')],
          [(''role'', ''user''), (''content'', ''hi'')]]
   \<and> req_messages (chat_wire (UniAI_chat answering_create switched_facade ''hi''))
       \<noteq> map to_dict (get_context (add_user_message (memory switched_facade) ''hi''))"
proof -
  have w: "req_messages (chat_wire (UniAI_chat answering_create switched_facade ''hi''))
       = [[(''role'', ''system''), (''content'', ''Answer in French.'')],
          [(''role'', ''user''), (''content'', ''hi'')]]"
    by (simp add: UniAI_chat_wire chat_request_def switched_facade_def switched_facade_value
        add_user_message_unbounded prepare_messages_def to_dict_def)
  have c: "map to_dict (get_context (add_user_message (memory switched_facade) ''hi''))
       = [[(''role'', ''system''), (''content'', ''Be brief.'')],
          [(''role'', ''user''), (''content'', ''hi'')]]"
    by (simp add: switched_facade_def switched_facade_value get_context_def
        add_user_message_unbounded to_dict_def)
  show ?thesis
    unfolding w c
    by (simp add: example_facade_constructed switched_facade_value)
qed

text \<open>
  C1, amended. For every facade \<open>chat\<close> or \<open>stream\<close> call the messages of the vendor
  request are the directive of the provider's config (if non-empty) as one system-role
  entry, followed by every stored message in order, each as a role/content pair. They
  equal the conversion of \<open>get_context()\<close> whenever the provider's directive and
  Memory's are the same in effect, which holds for every facade as constructed.
\<close>

theorem wire_is_directive_then_history:
  "req_messages (chat_wire (UniAI_chat create f message))
     = prepare_messages (config (provider f)) (messages (add_user_message (memory f) message))
   \<and> req_messages (stream_wire (UniAI_stream create_stream f message))
     = prepare_messages (config (provider f)) (messages (add_user_message (memory f) message))
   \<and> (directive (system_prompt (config (provider f))) = directive (mem_system_prompt (memory f))
        \<longrightarrow>
        req_messages (chat_wire (UniAI_chat create f message))
          = map to_dict (get_context (add_user_message (memory f) message))
        \<and> req_messages (stream_wire (UniAI_stream create_stream f message))
          = map to_dict (get_context (add_user_message (memory f) message)))
   \<and> (UniAI_init reg a = Inr f \<longrightarrow>
        directive (system_prompt (config (provider f))) = directive (mem_system_prompt (memory f)))"
proof -
  have w: "req_messages (chat_wire (UniAI_chat create f message))
             = prepare_messages (config (provider f))
                 (messages (add_user_message (memory f) message))"
          "req_messages (stream_wire (UniAI_stream create_stream f message))
             = prepare_messages (config (provider f))
                 (messages (add_user_message (memory f) message))"
    by (simp_all add: UniAI_chat_wire UniAI_stream_wire chat_request_def stream_request_def)
  have "directive (system_prompt (config (provider f))) = directive (mem_system_prompt (memory f))
        \<Longrightarrow> prepare_messages (config (provider f))
              (messages (add_user_message (memory f) message))
            = map to_dict (get_context (add_user_message (memory f) message))"
    by (rule prepare_messages_context) simp
  with w show ?thesis
    by (simp add: UniAI_init_directive)
qed

theorem wire_is_directive_then_history_witness:
  "directive (system_prompt (config (provider example_facade)))
     = directive (mem_system_prompt (memory example_facade))
   \<and> UniAI_init PROVIDERS example_args = Inr example_facade
   \<and> req_messages (chat_wire (UniAI_chat answering_create example_facade ''hi''))
       = map to_dict (get_context (add_user_message (memory example_facade) ''hi''))
   \<and> map to_dict (get_context (add_user_message (memory example_facade) ''hi''))
       = [[(''role'', ''system''), (''content'', ''Be brief.'')],
          [(''role'', ''user''), (''content'', ''hi'')]]"
proof -
  have d: "directive (system_prompt (config (provider example_facade)))
             = directive (mem_system_prompt (memory example_facade))"
    by (simp add: example_facade_def)
  have m: "max_messages (memory example_facade) = None" "messages (memory example_facade) = []"
          "mem_system_prompt (memory example_facade) = Some ''Be brief.''"
    by (simp_all add: example_facade_def)
  have c: "map to_dict (get_context (add_user_message (memory example_facade) ''hi''))
       = [[(''role'', ''system''), (''content'', ''Be brief.'')],
          [(''role'', ''user''), (''content'', ''hi'')]]"
    by (simp add: get_context_def add_user_message_unbounded m to_dict_def)
  have e: "req_messages (chat_wire (UniAI_chat answering_create example_facade ''hi''))
       = map to_dict (get_context (add_user_message (memory example_facade) ''hi''))"
    using wire_is_directive_then_history
            [of answering_create example_facade "''hi''" finished_stream PROVIDERS example_args]
          d
    by blast
  show ?thesis
    by (intro conjI d e c example_facade_constructed)
qed

section \<open>Facade: streaming\<close>

lemma collect_filter:
  "collect chunks acc = acc @ filter (\<lambda>c. c \<noteq> []) (map chunk_content chunks)"
  by (induction chunks arbitrary: acc) simp_all

lemma add_assistant_message_bound [simp]:
  "max_messages (add_assistant_message m c) = max_messages m"
  by (simp add: add_assistant_message_def)

lemma stream_chat_finished:
  "stream_chat finished_stream p msgs =
     \<lparr>stream_sent = stream_request (config p) msgs,
      yielded = [\<lparr>chunk_content = ''Once'', finish_reason = None, is_final = False\<rparr>,
                 \<lparr>chunk_content = '' upon'', finish_reason = None, is_final = False\<rparr>,
                 \<lparr>chunk_content = '' a time'', finish_reason = None, is_final = False\<rparr>,
                 \<lparr>chunk_content = [], finish_reason = Some ''stop'', is_final = True\<rparr>],
      raised = None\<rparr>"
  by (simp add: stream_chat_def finished_stream_def content_delta_def finish_delta_def
      stream_step_def)

lemma stream_chat_broken:
  "stream_chat broken_stream p msgs =
     \<lparr>stream_sent = stream_request (config p) msgs,
      yielded = [\<lparr>chunk_content = ''Once'', finish_reason = None, is_final = False\<rparr>],
      raised = Some (handle_error (cls p) (APIConnectionError ''Connection error.''))\<rparr>"
  by (simp add: stream_chat_def broken_stream_def content_delta_def stream_step_def)

text \<open>
  C5. In \<open>UniAI.stream\<close>, when the provider's chunk sequence ends without an error,
  one assistant message is appended after the user message, and its content is the
  concatenation of the non-empty chunk contents in order (with no bound on the history
  the stored messages are the old ones, the user message, and that assistant message);
  when the provider raises during the stream, the error reaches the caller and the
  facade is left as the append of the user message left it, with no assistant message.
\<close>

theorem stream_records_assistant_only_on_completion:
  "(raised (stream_chat create (provider f) (messages (add_user_message (memory f) message)))
      = None \<longrightarrow>
      stream_raised (UniAI_stream create f message) = None
      \<and> memory (stream_facade (UniAI_stream create f message))
          = add_assistant_message (add_user_message (memory f) message)
              (concat (filter (\<lambda>c. c \<noteq> [])
                 (map chunk_content
                    (yielded (stream_chat create (provider f)
                       (messages (add_user_message (memory f) message)))))))
      \<and> (max_messages (memory f) = None \<longrightarrow>
            messages (memory (stream_facade (UniAI_stream create f message)))
              = messages (memory f)
                @ [\<lparr>role = USER, content = message\<rparr>,
                   \<lparr>role = ASSISTANT,
                    content = concat (filter (\<lambda>c. c \<noteq> [])
                      (map chunk_content
                         (yielded (stream_chat create (provider f)
                            (messages (add_user_message (memory f) message))))))\<rparr>]))
   \<and> (raised (stream_chat create (provider f) (messages (add_user_message (memory f) message)))
        = Some e \<longrightarrow>
        stream_raised (UniAI_stream create f message) = Some e
        \<and> stream_facade (UniAI_stream create f message)
            = f\<lparr>memory := add_user_message (memory f) message\<rparr>)"
proof (cases "raised (stream_chat create (provider f)
                 (messages (add_user_message (memory f) message)))")
  case None
  then have r: "UniAI_stream create f message =
      \<lparr>stream_facade = f\<lparr>memory := add_assistant_message (add_user_message (memory f) message)
          (concat (collect (yielded (stream_chat create (provider f)
             (messages (add_user_message (memory f) message)))) []))\<rparr>,
       stream_wire = stream_sent (stream_chat create (provider f)
          (messages (add_user_message (memory f) message))),
       stream_yielded = collect (yielded (stream_chat create (provider f)
          (messages (add_user_message (memory f) message)))) [],
       stream_raised = None\<rparr>"
    by (simp add: UniAI_stream_def Let_def)
  show ?thesis
    unfolding r using None
    by (simp add: collect_filter add_user_message_unbounded add_assistant_message_unbounded)
next
  case (Some e')
  then have r: "UniAI_stream create f message =
      \<lparr>stream_facade = f\<lparr>memory := add_user_message (memory f) message\<rparr>,
       stream_wire = stream_sent (stream_chat create (provider f)
          (messages (add_user_message (memory f) message))),
       stream_yielded = collect (yielded (stream_chat create (provider f)
          (messages (add_user_message (memory f) message)))) [],
       stream_raised = Some e'\<rparr>"
    by (simp add: UniAI_stream_def Let_def)
  show ?thesis
    unfolding r using Some by simp
qed

theorem stream_records_assistant_only_on_completion_witness:
  "raised (stream_chat finished_stream (provider example_facade)
      (messages (add_user_message (memory example_facade) ''Tell me a story''))) = None
   \<and> max_messages (memory example_facade) = None
   \<and> messages (memory (stream_facade (UniAI_stream finished_stream example_facade ''Tell me a story'')))
       = [\<lparr>role = USER, content = ''Tell me a story''\<rparr>,
          \<lparr>role = ASSISTANT, content = ''Once upon a time''\<rparr>]
   \<and> raised (stream_chat broken_stream (provider example_facade)
        (messages (add_user_message (memory example_facade) ''Tell me a story'')))
       = Some (APIError ''Failed to connect to OpenAI API: Connection error.'' None)
   \<and> stream_raised (UniAI_stream broken_stream example_facade ''Tell me a story'')
       = Some (APIError ''Failed to connect to OpenAI API: Connection error.'' None)
   \<and> messages (memory (stream_facade (UniAI_stream broken_stream example_facade ''Tell me a story'')))
       = [\<lparr>role = USER, content = ''Tell me a story''\<rparr>]"
proof -
  have m: "max_messages (memory example_facade) = None" "messages (memory example_facade) = []"
    and c: "cls (provider example_facade) = OpenAIProvider"
    by (simp_all add: example_facade_def)
  show ?thesis
    using stream_records_assistant_only_on_completion
            [of finished_stream example_facade "''Tell me a story''"]
          stream_records_assistant_only_on_completion
            [of broken_stream example_facade "''Tell me a story''"
                "APIError ''Failed to connect to OpenAI API: Connection error.'' None"]
    by (simp add: stream_chat_finished stream_chat_broken m c add_user_message_unbounded
        add_assistant_message_unbounded)
qed

section \<open>Facade: switching the provider\<close>

lemma talked_facade_value:
  "talked_facade =
     example_facade\<lparr>memory :=
       \<lparr>messages = [\<lparr>role = USER, content = ''hi''\<rparr>, \<lparr>role = ASSISTANT, content = ''Hello!''\<rparr>],
        max_messages = None, mem_system_prompt = Some ''Be brief.''\<rparr>\<rparr>"
proof -
  have m: "max_messages (memory example_facade) = None" "messages (memory example_facade) = []"
    "mem_system_prompt (memory example_facade) = Some ''Be brief.''"
    by (simp_all add: example_facade_def)
  have o: "outcome (chat answering_create (provider example_facade) msgs)
     = Inr \<lparr>resp_content = ''Hello!'', resp_model = ''gpt-4o-mini'', resp_usage = None,
            resp_finish_reason = Some ''stop''\<rparr>" for msgs
    by (simp add: chat_def answering_create_def)
  have "messages (add_assistant_message (add_user_message (memory example_facade) ''hi'') ''Hello!'')
          = [\<lparr>role = USER, content = ''hi''\<rparr>, \<lparr>role = ASSISTANT, content = ''Hello!''\<rparr>]"
    by (simp add: add_assistant_message_unbounded add_user_message_unbounded m)
  moreover have "max_messages (add_assistant_message (add_user_message (memory example_facade) ''hi'') ''Hello!'') = None"
    by (simp add: m)
  moreover have "mem_system_prompt (add_assistant_message (add_user_message (memory example_facade) ''hi'') ''Hello!'') = Some ''Be brief.''"
    by (simp add: m add_assistant_message_def)
  ultimately have "add_assistant_message (add_user_message (memory example_facade) ''hi'') ''Hello!''
      = \<lparr>messages = [\<lparr>role = USER, content = ''hi''\<rparr>, \<lparr>role = ASSISTANT, content = ''Hello!''\<rparr>],
        max_messages = None, mem_system_prompt = Some ''Be brief.''\<rparr>"
    by (cases "add_assistant_message (add_user_message (memory example_facade) ''hi'') ''Hello!''") simp
  then show ?thesis
    by (simp add: talked_facade_def UniAI_chat_def Let_def o)
qed

text \<open>
  C8. A \<open>switch_provider\<close> call with \<open>keep_history\<close> true leaves \<open>get_history()\<close> as
  it was (also when the call raises). When the switch succeeds, \<open>get_history()\<close> is
  the old one if \<open>keep_history\<close> is true and empty if it is false; Memory is untouched
  or cleared accordingly, the provider name becomes the lower-cased new name, and the
  provider is an instance of the class registered under it. The facade has no other
  attribute.
\<close>

theorem switch_provider_history:
  "(keep_history \<longrightarrow>
      get_history (snd (switch_provider reg f name key mdl url keep_history kwargs))
        = get_history f)
   \<and> (switch_provider reg f name key mdl url keep_history kwargs = (None, f') \<longrightarrow>
        get_history f' = (if keep_history then get_history f else [])
        \<and> memory f' = (if keep_history then memory f else clear (memory f))
        \<and> provider_name f' = lower name
        \<and> map_of reg (lower name) = Some (cls (provider f')))"
  by (auto simp: switch_provider_def Let_def get_history_def clear_def create_provider_cases
      lower_idem split: sum.splits option.splits)

lemma talked_switch_ok:
  "fst (switch_provider PROVIDERS talked_facade ''DeepSeek'' ''sk-other'' None None keep no_kwargs)
     = None"
  by (simp add: switch_provider_def talked_facade_value example_facade_def no_kwargs_def
      ProviderConfig_new_def field_constraints_def create_provider_cases
      PROVIDERS_def lower_def lower_char_def Let_def)

theorem switch_provider_history_witness:
  "switch_provider PROVIDERS talked_facade ''DeepSeek'' ''sk-other'' None None False no_kwargs
     = (None, snd (switch_provider PROVIDERS talked_facade ''DeepSeek'' ''sk-other'' None None
                     False no_kwargs))
   \<and> get_history talked_facade
       = [[(''role'', ''user''), (''content'', ''hi'')],
          [(''role'', ''assistant''), (''content'', ''Hello!'')]]
   \<and> get_history (snd (switch_provider PROVIDERS talked_facade ''DeepSeek'' ''sk-other'' None None
                          True no_kwargs))
       = [[(''role'', ''user''), (''content'', ''hi'')],
          [(''role'', ''assistant''), (''content'', ''Hello!'')]]
   \<and> get_history (snd (switch_provider PROVIDERS talked_facade ''DeepSeek'' ''sk-other'' None None
                          False no_kwargs))
       = []
   \<and> provider_name (snd (switch_provider PROVIDERS talked_facade ''DeepSeek'' ''sk-other'' None
                            None False no_kwargs))
       = ''deepseek''"
proof -
  have s: "switch_provider PROVIDERS talked_facade ''DeepSeek'' ''sk-other'' None None False
             no_kwargs
           = (None, snd (switch_provider PROVIDERS talked_facade ''DeepSeek'' ''sk-other'' None
                           None False no_kwargs))"
    using talked_switch_ok [of False] by (simp add: prod_eq_iff)
  have h: "get_history talked_facade
       = [[(''role'', ''user''), (''content'', ''hi'')],
          [(''role'', ''assistant''), (''content'', ''Hello!'')]]"
    by (simp add: get_history_def talked_facade_value to_dict_def)
  have l: "lower ''DeepSeek'' = ''deepseek''"
    by (simp add: lower_def lower_char_def)
  have t: "get_history (snd (switch_provider PROVIDERS talked_facade ''DeepSeek'' ''sk-other''
                          None None True no_kwargs)) = get_history talked_facade"
    using switch_provider_history
            [of True PROVIDERS talked_facade "''DeepSeek''" "''sk-other''" None None no_kwargs]
    by simp
  have f: "get_history (snd (switch_provider PROVIDERS talked_facade ''DeepSeek'' ''sk-other''
                          None None False no_kwargs)) = []
           \<and> provider_name (snd (switch_provider PROVIDERS talked_facade ''DeepSeek'' ''sk-other''
                          None None False no_kwargs)) = lower ''DeepSeek''"
    using switch_provider_history
            [of False PROVIDERS talked_facade "''DeepSeek''" "''sk-other''" None None no_kwargs
                "snd (switch_provider PROVIDERS talked_facade ''DeepSeek'' ''sk-other'' None None
                        False no_kwargs)"] s
    by simp
  show ?thesis
    using s h t f l by simp
qed

section \<open>Adapters: error classification\<close>

lemma handle_error_is_APIError: "is_APIError (handle_error c e)"
  by (cases c; cases e) simp_all

lemma GeminiProvider_handle_error_is_APIError:
  "is_APIError (GeminiProvider_handle_error api_core e)"
  by (cases api_core; cases e) simp_all

text \<open>
  C6. Whatever exception the vendor client raises inside \<open>chat\<close> or \<open>stream_chat\<close> of
  an adapter (OpenAI, DeepSeek, Gemini), the error that leaves the adapter is an
  \<open>AuthenticationError\<close>, a \<open>RateLimitError\<close> or an \<open>APIError\<close>; a vendor
  authentication failure leaves as \<open>AuthenticationError\<close> with status code 401 (for
  Gemini, where \<open>google.api_core\<close>, which defines that failure, can be imported).
\<close>

theorem adapters_raise_only_api_errors:
  "is_APIError (handle_error c e)
   \<and> is_APIError (GeminiProvider_handle_error api_core g)
   \<and> (outcome (chat create p msgs) = Inl err \<longrightarrow> is_APIError err)
   \<and> (raised (stream_chat create_stream p msgs) = Some err \<longrightarrow> is_APIError err)
   \<and> (GeminiProvider_chat api_core generate cfg msgs = Inl err \<longrightarrow> is_APIError err)
   \<and> (gemini_raised (GeminiProvider_stream_chat api_core generate_stream cfg msgs) = Some err
        \<longrightarrow> is_APIError err)
   \<and> (create (chat_request (config p) msgs) = Inl (OpenAIAuthError s) \<longrightarrow>
        outcome (chat create p msgs)
          = Inl (AuthenticationError ''Invalid API key or unauthorized access'' (Some 401)))
   \<and> (snd (create_stream (stream_request (config p) msgs)) = Some (OpenAIAuthError s) \<longrightarrow>
        raised (stream_chat create_stream p msgs)
          = Some (AuthenticationError ''Invalid API key or unauthorized access'' (Some 401)))
   \<and> (generate (build_prompt cfg msgs) = Inl (Unauthenticated s) \<longrightarrow>
        GeminiProvider_chat True generate cfg msgs
          = Inl (AuthenticationError ''Invalid Gemini API key or unauthorized access'' (Some 401)))
   \<and> (snd (generate_stream (build_prompt cfg msgs)) = Some (Unauthenticated s) \<longrightarrow>
        gemini_raised (GeminiProvider_stream_chat True generate_stream cfg msgs)
          = Some (AuthenticationError ''Invalid Gemini API key or unauthorized access''
                    (Some 401)))"
proof -
  have a: "handle_error c (OpenAIAuthError s)
             = AuthenticationError ''Invalid API key or unauthorized access'' (Some 401)" for c
    by (cases c) simp_all
  have 1: "outcome (chat create p msgs) = Inl err \<longrightarrow> is_APIError err"
    by (auto simp: chat_def Let_def handle_error_is_APIError split: sum.splits list.splits)
  have 2: "raised (stream_chat create_stream p msgs) = Some err \<longrightarrow> is_APIError err"
    by (auto simp: stream_chat_def Let_def handle_error_is_APIError)
  have 3: "GeminiProvider_chat api_core generate cfg msgs = Inl err \<longrightarrow> is_APIError err"
    by (auto simp: GeminiProvider_chat_def GeminiProvider_handle_error_is_APIError
        split: sum.splits)
  have 4: "gemini_raised (GeminiProvider_stream_chat api_core generate_stream cfg msgs) = Some err
        \<longrightarrow> is_APIError err"
    by (auto simp: GeminiProvider_stream_chat_def Let_def GeminiProvider_handle_error_is_APIError)
  have 5: "create (chat_request (config p) msgs) = Inl (OpenAIAuthError s) \<longrightarrow>
        outcome (chat create p msgs)
          = Inl (AuthenticationError ''Invalid API key or unauthorized access'' (Some 401))"
    by (simp add: chat_def Let_def a)
  have 6: "snd (create_stream (stream_request (config p) msgs)) = Some (OpenAIAuthError s) \<longrightarrow>
        raised (stream_chat create_stream p msgs)
          = Some (AuthenticationError ''Invalid API key or unauthorized access'' (Some 401))"
    by (simp add: stream_chat_def Let_def a)
  have 7: "generate (build_prompt cfg msgs) = Inl (Unauthenticated s) \<longrightarrow>
        GeminiProvider_chat True generate cfg msgs
          = Inl (AuthenticationError ''Invalid Gemini API key or unauthorized access'' (Some 401))"
    by (simp add: GeminiProvider_chat_def)
  have 8: "snd (generate_stream (build_prompt cfg msgs)) = Some (Unauthenticated s) \<longrightarrow>
        gemini_raised (GeminiProvider_stream_chat True generate_stream cfg msgs)
          = Some (AuthenticationError ''Invalid Gemini API key or unauthorized access''
                    (Some 401))"
    by (simp add: GeminiProvider_stream_chat_def Let_def)
  show ?thesis
    by (intro conjI handle_error_is_APIError GeminiProvider_handle_error_is_APIError
        1 2 3 4 5 6 7 8)
qed

theorem adapters_raise_only_api_errors_witness:
  "rejecting_create (chat_request (config (provider example_facade)) [])
     = Inl (OpenAIAuthError ''Incorrect API key provided'')
   \<and> outcome (chat rejecting_create (provider example_facade) [])
       = Inl (AuthenticationError ''Invalid API key or unauthorized access'' (Some 401))
   \<and> snd (rejecting_stream (stream_request (config (provider example_facade)) []))
       = Some (OpenAIAuthError ''Incorrect API key provided'')
   \<and> raised (stream_chat rejecting_stream (provider example_facade) [])
       = Some (AuthenticationError ''Invalid API key or unauthorized access'' (Some 401))
   \<and> is_APIError (AuthenticationError ''Invalid API key or unauthorized access'' (Some 401))
   \<and> gemini_rejecting_generate (build_prompt example_config [])
       = Inl (Unauthenticated ''API key not valid'')
   \<and> GeminiProvider_chat True gemini_rejecting_generate example_config []
       = Inl (AuthenticationError ''Invalid Gemini API key or unauthorized access'' (Some 401))
   \<and> snd (gemini_rejecting_stream (build_prompt example_config []))
       = Some (Unauthenticated ''API key not valid'')
   \<and> gemini_raised (GeminiProvider_stream_chat True gemini_rejecting_stream example_config [])
       = Some (AuthenticationError ''Invalid Gemini API key or unauthorized access'' (Some 401))
   \<and> is_APIError (AuthenticationError ''Invalid Gemini API key or unauthorized access''
        (Some 401))"
proof -
  have h: "rejecting_create (chat_request (config (provider example_facade)) [])
             = Inl (OpenAIAuthError ''Incorrect API key provided'')"
          "snd (rejecting_stream (stream_request (config (provider example_facade)) []))
             = Some (OpenAIAuthError ''Incorrect API key provided'')"
          "gemini_rejecting_generate (build_prompt example_config [])
             = Inl (Unauthenticated ''API key not valid'')"
          "snd (gemini_rejecting_stream (build_prompt example_config []))
             = Some (Unauthenticated ''API key not valid'')"
    by (simp_all add: rejecting_create_def rejecting_stream_def gemini_rejecting_generate_def
        gemini_rejecting_stream_def)
  note t = adapters_raise_only_api_errors
             [of OpenAIProvider "OpenAIAuthError ''Incorrect API key provided''" True
                 "Unauthenticated ''API key not valid''" rejecting_create
                 "provider example_facade" "[]"
                 "AuthenticationError ''Invalid API key or unauthorized access'' (Some 401)"
                 rejecting_stream gemini_rejecting_generate example_config
                 gemini_rejecting_stream "''Incorrect API key provided''"]
  note u = adapters_raise_only_api_errors
             [of OpenAIProvider "OpenAIAuthError ''Incorrect API key provided''" True
                 "Unauthenticated ''API key not valid''" rejecting_create
                 "provider example_facade" "[]"
                 "AuthenticationError ''Invalid Gemini API key or unauthorized access'' (Some 401)"
                 rejecting_stream gemini_rejecting_generate example_config
                 gemini_rejecting_stream "''API key not valid''"]
  from t h have 1: "outcome (chat rejecting_create (provider example_facade) [])
       = Inl (AuthenticationError ''Invalid API key or unauthorized access'' (Some 401))"
    by blast
  from t h have 2: "raised (stream_chat rejecting_stream (provider example_facade) [])
       = Some (AuthenticationError ''Invalid API key or unauthorized access'' (Some 401))"
    by blast
  from t 1 have 3: "is_APIError (AuthenticationError ''Invalid API key or unauthorized access'' (Some 401))"
    by blast
  from u h have 4: "GeminiProvider_chat True gemini_rejecting_generate example_config []
       = Inl (AuthenticationError ''Invalid Gemini API key or unauthorized access'' (Some 401))"
    by blast
  from u h have 5: "gemini_raised (GeminiProvider_stream_chat True gemini_rejecting_stream example_config [])
       = Some (AuthenticationError ''Invalid Gemini API key or unauthorized access'' (Some 401))"
    by blast
  from u 4 have 6: "is_APIError (AuthenticationError ''Invalid Gemini API key or unauthorized access'' (Some 401))"
    by blast
  show ?thesis
    by (intro conjI h 1 2 3 4 5 6)
qed

section \<open>Adapters: the final chunk of a stream\<close>

lemma stream_step_not_final:
  "delta_finish_reason d = None \<Longrightarrow> \<forall>c \<in> set (stream_step d). \<not> is_final c"
  by (auto simp: stream_step_def delta_finish_reason_def split: list.splits if_splits)

lemma stream_loop_append: "stream_loop (xs @ ys) = stream_loop xs @ stream_loop ys"
  by (induction xs) simp_all

lemma stream_loop_not_final:
  "\<forall>d \<in> set deltas. delta_finish_reason d = None \<Longrightarrow>
     \<forall>c \<in> set (stream_loop deltas). \<not> is_final c"
  by (induction deltas) (auto dest: stream_step_not_final)

lemma stream_step_final:
  assumes "truthy (delta_finish_reason d)"
  shows "\<exists>c. stream_step d = [c] \<and> is_final c"
proof (cases "chunk_choices d")
  case Nil
  with assms show ?thesis by (simp add: delta_finish_reason_def)
next
  case (Cons choice rest)
  with assms have t: "truthy (chunk_finish_reason choice)"
    by (simp add: delta_finish_reason_def)
  then have "chunk_finish_reason choice \<noteq> None"
    by (cases "chunk_finish_reason choice") simp_all
  with Cons t show ?thesis
    by (simp add: stream_step_def)
qed

lemma GeminiProvider_stream_loop_not_final:
  "c \<in> set (GeminiProvider_stream_loop texts) \<Longrightarrow> \<not> is_final c"
  by (induction texts) (auto split: if_splits)

text \<open>
  C4 as written fails on the OpenAI-compatible adapters: they mark a chunk final only
  when the vendor chunk carries a finish reason, and add no chunk of their own, so a
  vendor stream that ends without a finish signal yields no final chunk.
\<close>

theorem no_final_chunk_without_finish_signal_counterexample:
  "raised (stream_chat unfinished_stream (provider example_facade) []) = None
   \<and> yielded (stream_chat unfinished_stream (provider example_facade) [])
       = [\<lparr>chunk_content = ''Once'', finish_reason = None, is_final = False\<rparr>]
   \<and> filter is_final (yielded (stream_chat unfinished_stream (provider example_facade) [])) = []"
  by (simp add: stream_chat_def unfinished_stream_def content_delta_def stream_step_def)

text \<open>
  C4, amended. On an OpenAI-compatible adapter, when the vendor stream ends with a chunk
  that carries a non-empty finish reason and no earlier chunk carries one, the produced
  sequence has exactly one chunk with \<open>is_final\<close> true, and it is the last; when no
  vendor chunk carries a finish reason, no produced chunk is final. On the Gemini
  adapter a stream that ends without error yields exactly one final chunk, the last.
  Three non-empty content deltas followed by a finish signal yield exactly four
  chunks: three that are not final, then a final one with empty content.
\<close>

theorem final_chunk_follows_finish_signal:
  "((\<forall>d \<in> set deltas. delta_finish_reason d = None) \<and> truthy (delta_finish_reason final)
     \<and> create (stream_request (config p) msgs) = (deltas @ [final], None)
     \<longrightarrow> yielded (stream_chat create p msgs) \<noteq> []
         \<and> is_final (last (yielded (stream_chat create p msgs)))
         \<and> (\<forall>c \<in> set (butlast (yielded (stream_chat create p msgs))). \<not> is_final c))
   \<and> ((\<forall>d \<in> set deltas. delta_finish_reason d = None)
       \<and> create (stream_request (config p) msgs) = (deltas, None)
       \<longrightarrow> (\<forall>c \<in> set (yielded (stream_chat create p msgs)). \<not> is_final c))
   \<and> (generate (build_prompt cfg msgs) = (texts, None)
       \<longrightarrow> is_final (last (gemini_yielded (GeminiProvider_stream_chat api_core generate cfg msgs)))
         \<and> (\<forall>c \<in> set (butlast (gemini_yielded
                 (GeminiProvider_stream_chat api_core generate cfg msgs))). \<not> is_final c))
   \<and> (c1 \<noteq> [] \<and> c2 \<noteq> [] \<and> c3 \<noteq> [] \<and> reason \<noteq> []
       \<and> create (stream_request (config p) msgs)
           = ([content_delta c1, content_delta c2, content_delta c3, finish_delta reason], None)
       \<longrightarrow> yielded (stream_chat create p msgs)
           = [\<lparr>chunk_content = c1, finish_reason = None, is_final = False\<rparr>,
              \<lparr>chunk_content = c2, finish_reason = None, is_final = False\<rparr>,
              \<lparr>chunk_content = c3, finish_reason = None, is_final = False\<rparr>,
              \<lparr>chunk_content = [], finish_reason = Some reason, is_final = True\<rparr>])"
proof (intro conjI impI)
  assume h: "(\<forall>d \<in> set deltas. delta_finish_reason d = None)
     \<and> truthy (delta_finish_reason final)
     \<and> create (stream_request (config p) msgs) = (deltas @ [final], None)"
  then obtain c where c: "stream_step final = [c]" "is_final c"
    using stream_step_final by blast
  from h have y: "yielded (stream_chat create p msgs) = stream_loop deltas @ [c]"
    by (simp add: stream_chat_def Let_def stream_loop_append c)
  from h have n: "\<forall>c \<in> set (stream_loop deltas). \<not> is_final c"
    using stream_loop_not_final by blast
  show "yielded (stream_chat create p msgs) \<noteq> []"
    by (simp add: y)
  show "is_final (last (yielded (stream_chat create p msgs)))"
    by (simp add: y c)
  show "\<forall>c \<in> set (butlast (yielded (stream_chat create p msgs))). \<not> is_final c"
    using n by (simp add: y)
next
  assume h: "(\<forall>d \<in> set deltas. delta_finish_reason d = None)
       \<and> create (stream_request (config p) msgs) = (deltas, None)"
  then have "yielded (stream_chat create p msgs) = stream_loop deltas"
    by (simp add: stream_chat_def Let_def)
  moreover from h have "\<forall>c \<in> set (stream_loop deltas). \<not> is_final c"
    using stream_loop_not_final by blast
  ultimately show "\<forall>c \<in> set (yielded (stream_chat create p msgs)). \<not> is_final c"
    by simp
next
  assume h: "generate (build_prompt cfg msgs) = (texts, None)"
  then have y: "gemini_yielded (GeminiProvider_stream_chat api_core generate cfg msgs)
      = GeminiProvider_stream_loop texts
        @ [\<lparr>chunk_content = [], finish_reason = Some ''stop'', is_final = True\<rparr>]"
    by (simp add: GeminiProvider_stream_chat_def Let_def)
  show "is_final (last (gemini_yielded (GeminiProvider_stream_chat api_core generate cfg msgs)))"
    by (simp add: y)
  show "\<forall>c \<in> set (butlast (gemini_yielded
                 (GeminiProvider_stream_chat api_core generate cfg msgs))). \<not> is_final c"
    using GeminiProvider_stream_loop_not_final by (simp add: y)
next
  assume "c1 \<noteq> [] \<and> c2 \<noteq> [] \<and> c3 \<noteq> [] \<and> reason \<noteq> []
       \<and> create (stream_request (config p) msgs)
           = ([content_delta c1, content_delta c2, content_delta c3, finish_delta reason], None)"
  then show "yielded (stream_chat create p msgs)
           = [\<lparr>chunk_content = c1, finish_reason = None, is_final = False\<rparr>,
              \<lparr>chunk_content = c2, finish_reason = None, is_final = False\<rparr>,
              \<lparr>chunk_content = c3, finish_reason = None, is_final = False\<rparr>,
              \<lparr>chunk_content = [], finish_reason = Some reason, is_final = True\<rparr>]"
    by (simp add: stream_chat_def Let_def content_delta_def finish_delta_def stream_step_def)
qed

theorem final_chunk_follows_finish_signal_witness:
  "delta_finish_reason (content_delta ''Once'') = None
   \<and> truthy (delta_finish_reason (finish_delta ''stop''))
   \<and> finished_stream (stream_request (config (provider example_facade)) [])
       = ([content_delta ''Once'', content_delta '' upon'', content_delta '' a time'']
          @ [finish_delta ''stop''], None)
   \<and> yielded (stream_chat finished_stream (provider example_facade) [])
       = [\<lparr>chunk_content = ''Once'', finish_reason = None, is_final = False\<rparr>,
          \<lparr>chunk_content = '' upon'', finish_reason = None, is_final = False\<rparr>,
          \<lparr>chunk_content = '' a time'', finish_reason = None, is_final = False\<rparr>,
          \<lparr>chunk_content = [], finish_reason = Some ''stop'', is_final = True\<rparr>]
   \<and> is_final (last (yielded (stream_chat finished_stream (provider example_facade) [])))
   \<and> filter is_final (butlast (yielded (stream_chat finished_stream (provider example_facade) [])))
       = []
   \<and> unfinished_stream (stream_request (config (provider example_facade)) [])
       = ([content_delta ''Once''], None)
   \<and> filter is_final (yielded (stream_chat unfinished_stream (provider example_facade) [])) = []
   \<and> gemini_finished_stream (build_prompt example_config []) = ([''Once'', [], '' upon a time''], None)
   \<and> is_final (last (gemini_yielded
         (GeminiProvider_stream_chat True gemini_finished_stream example_config [])))
   \<and> filter is_final (butlast (gemini_yielded
         (GeminiProvider_stream_chat True gemini_finished_stream example_config []))) = []"
proof -
  have d: "\<forall>d \<in> set [content_delta ''Once'', content_delta '' upon'', content_delta '' a time''].
             delta_finish_reason d = None"
          "\<forall>d \<in> set [content_delta ''Once'']. delta_finish_reason d = None"
          "delta_finish_reason (content_delta ''Once'') = None"
          "truthy (delta_finish_reason (finish_delta ''stop''))"
    by (simp_all add: delta_finish_reason_def content_delta_def finish_delta_def)
  have s: "finished_stream (stream_request (config (provider example_facade)) [])
       = ([content_delta ''Once'', content_delta '' upon'', content_delta '' a time'']
          @ [finish_delta ''stop''], None)"
          "unfinished_stream (stream_request (config (provider example_facade)) [])
       = ([content_delta ''Once''], None)"
          "gemini_finished_stream (build_prompt example_config [])
       = ([''Once'', [], '' upon a time''], None)"
    by (simp_all add: finished_stream_def unfinished_stream_def gemini_finished_stream_def)
  have n: "''Once'' \<noteq> [] \<and> '' upon'' \<noteq> [] \<and> '' a time'' \<noteq> [] \<and> ''stop'' \<noteq> []"
    by simp
  note t = final_chunk_follows_finish_signal
             [of "[content_delta ''Once'', content_delta '' upon'', content_delta '' a time'']"
                 "finish_delta ''stop''" finished_stream "provider example_facade" "[]"
                 gemini_finished_stream example_config "[''Once'', [], '' upon a time'']" True
                 "''Once''" "'' upon''" "'' a time''" "''stop''"]
  note u = final_chunk_follows_finish_signal
             [of "[content_delta ''Once'']"
                 "finish_delta ''stop''" unfinished_stream "provider example_facade" "[]"
                 gemini_finished_stream example_config "[''Once'', [], '' upon a time'']" True
                 "''Once''" "'' upon''" "'' a time''" "''stop''"]
  from t d s have 1: "is_final (last (yielded (stream_chat finished_stream (provider example_facade) [])))"
    and 2: "\<forall>c \<in> set (butlast (yielded (stream_chat finished_stream (provider example_facade) []))).
              \<not> is_final c"
    by blast+
  from t n s have 3: "yielded (stream_chat finished_stream (provider example_facade) [])
       = [\<lparr>chunk_content = ''Once'', finish_reason = None, is_final = False\<rparr>,
          \<lparr>chunk_content = '' upon'', finish_reason = None, is_final = False\<rparr>,
          \<lparr>chunk_content = '' a time'', finish_reason = None, is_final = False\<rparr>,
          \<lparr>chunk_content = [], finish_reason = Some ''stop'', is_final = True\<rparr>]"
    by simp
  from u d s have 4: "\<forall>c \<in> set (yielded (stream_chat unfinished_stream (provider example_facade) [])).
              \<not> is_final c"
    by blast
  from t s have 5: "is_final (last (gemini_yielded
         (GeminiProvider_stream_chat True gemini_finished_stream example_config [])))"
    and 6: "\<forall>c \<in> set (butlast (gemini_yielded
         (GeminiProvider_stream_chat True gemini_finished_stream example_config []))). \<not> is_final c"
    by blast+
  show ?thesis
    using d(3,4) s 1 2 3 4 5 6 by (simp add: filter_empty_conv)
qed

section \<open>Provider construction: default model\<close>

text \<open>
  C3 at the failing input. \<open>OpenAIProvider.__init__\<close> passes \<open>model=config.model\<close>
  with no fallback, so a config whose model is the empty string keeps it, where
  \<open>DeepSeekProvider.__init__\<close> writes \<open>config.model or\<close> the default and gets
  \<open>deepseek-chat\<close>. The facade built with no model for \<open>openai\<close> has the empty
  model too.
\<close>

theorem openai_empty_model_is_kept:
  "model example_config = []
   \<and> model (config (OpenAIProvider_init example_config)) = []
   \<and> OpenAIConfig_default_model = ''gpt-4o-mini''
   \<and> model (config (DeepSeekProvider_init example_config)) = ''deepseek-chat''
   \<and> UniAI_init PROVIDERS example_args = Inr example_facade
   \<and> model (config (provider example_facade)) = []"
  by (simp add: example_config_def OpenAIProvider_init_def DeepSeekProvider_init_def
      OpenAIConfig_default_model_def DeepSeekConfig_default_model_def
      example_facade_constructed)
     (simp add: example_facade_def)

end
